theory Spec2Isabelle
  imports Complex_Main "HOL-Library.AList"
begin

section \<open>Common types\<close>

text \<open>
  Datetimes are timezone-aware instants (\<open>USE_TZ = True\<close>); they are modelled as the
  number of microseconds since the epoch, the resolution of Python's \<open>datetime\<close>.
  A \<open>timedelta\<close> is a number of microseconds too. Primary keys (\<open>uuid.uuid4\<close>)
  and user references are natural numbers. Decimal amounts with two decimal places are
  integers counting hundredths.
\<close>

type_synonym datetime = int
type_synonym timedelta = int
type_synonym uuid = nat
type_synonym amount = int

definition microseconds_per_hour :: int where
  "microseconds_per_hour = 3600000000"

definition microseconds_per_day :: int where
  "microseconds_per_day = 86400000000"

definition hours :: "int \<Rightarrow> timedelta" where
  "hours n = n * microseconds_per_hour"

definition days :: "int \<Rightarrow> timedelta" where
  "days n = n * microseconds_per_day"

text \<open>\<open>timedelta.days\<close>: the whole days of a duration, rounded towards minus infinity.\<close>

definition timedelta_days :: "timedelta \<Rightarrow> int" where
  "timedelta_days d = d div microseconds_per_day"

section \<open>Python values and exceptions\<close>

text \<open>
  The exceptions the modelled code can meet. \<open>str(e)\<close> is modelled by
  \<open>exn_str\<close>: the text the code itself gives an exception it raises. The message of
  an exception raised by the interpreter or a library is not modelled; the class name
  stands for it, so \<open>exn_str\<close> tells which exception was raised, not its wording.
\<close>

datatype exn =
  AttributeError | TypeError | KeyError | NameError | InvalidOperation
  | DoesNotExist | IntegrityError | RequestException string | Exception string

fun exn_str :: "exn \<Rightarrow> string" where
  "exn_str AttributeError = ''AttributeError''"
| "exn_str TypeError = ''TypeError''"
| "exn_str KeyError = ''KeyError''"
| "exn_str NameError = ''NameError''"
| "exn_str InvalidOperation = ''InvalidOperation''"
| "exn_str DoesNotExist = ''DoesNotExist''"
| "exn_str IntegrityError = ''IntegrityError''"
| "exn_str (RequestException m) = m"
| "exn_str (Exception m) = m"

text \<open>Sequencing of computations that may raise: the first exception ends the block.\<close>

definition and_then :: "exn + 'a \<Rightarrow> ('a \<Rightarrow> exn + 'b) \<Rightarrow> exn + 'b" where
  "and_then m f = (case m of Inl e \<Rightarrow> Inl e | Inr x \<Rightarrow> f x)"

text \<open>
  The values \<open>json.loads\<close> produces: \<open>None\<close>, booleans, integers, floats, strings,
  lists and dictionaries (an association list, looked up from the left).
\<close>

datatype pyfloat = Float_finite rat | Float_inf | Float_neg_inf | Float_nan

datatype json =
  JNull | JBool bool | JInt int | JFloat pyfloat | JStr string
  | JList "json list" | JDict "(string \<times> json) list"

text \<open>
  \<open>x.get(key, default)\<close>: only a dictionary has the method; on every other value
  the attribute lookup raises \<open>AttributeError\<close>.
\<close>

fun py_get :: "json \<Rightarrow> string \<Rightarrow> json \<Rightarrow> exn + json" where
  "py_get (JDict kvs) k d = Inr (case map_of kvs k of Some v \<Rightarrow> v | None \<Rightarrow> d)"
| "py_get _ k d = Inl AttributeError"

text \<open>\<open>x == n\<close> for an integer literal \<open>n\<close>: a boolean is an integer, a float compares by value.\<close>

fun py_eq_int :: "json \<Rightarrow> int \<Rightarrow> bool" where
  "py_eq_int (JInt i) n = (i = n)"
| "py_eq_int (JBool b) n = ((if b then 1 else 0) = n)"
| "py_eq_int (JFloat (Float_finite q)) n = (q = of_int n)"
| "py_eq_int _ n = False"

text \<open>\<open>x == s\<close> for a string literal \<open>s\<close>.\<close>

fun py_eq_str :: "json \<Rightarrow> string \<Rightarrow> bool" where
  "py_eq_str (JStr t) s = (t = s)"
| "py_eq_str _ s = False"

text \<open>\<open>bool(x)\<close>, as an \<open>if x:\<close> evaluates it.\<close>

fun py_truthy :: "json \<Rightarrow> bool" where
  "py_truthy JNull = False"
| "py_truthy (JBool b) = b"
| "py_truthy (JInt i) = (i \<noteq> 0)"
| "py_truthy (JFloat f) = (f \<noteq> Float_finite 0)"
| "py_truthy (JStr s) = (s \<noteq> [])"
| "py_truthy (JList xs) = (xs \<noteq> [])"
| "py_truthy (JDict kvs) = (kvs \<noteq> [])"

text \<open>
  \<open>for item in x\<close>: a list yields its elements, a dictionary its keys, a string its
  characters; the other values are not iterable.
\<close>

fun py_iter :: "json \<Rightarrow> exn + json list" where
  "py_iter (JList xs) = Inr xs"
| "py_iter (JDict kvs) = Inr (map (\<lambda>kv. JStr (fst kv)) kvs)"
| "py_iter (JStr s) = Inr (map (\<lambda>c. JStr [c]) s)"
| "py_iter _ = Inl TypeError"

text \<open>
  The values of the dictionary \<open>parse_callback\<close> returns: a value taken from the
  payload as it is, a boolean the code computes, a \<open>Decimal\<close>, or a text.
\<close>

datatype 'd pyval = PyJson json | PyBool bool | PyDecimal 'd | PyStr string

type_synonym 'd pydict = "(string \<times> 'd pyval) list"

text \<open>
  \<open>Decimal(str(value))\<close> belongs to the standard library; it is a parameter
  \<open>dec\<close> of the parsers, with \<open>None\<close> where the constructor raises
  \<open>InvalidOperation\<close>.
\<close>

definition decimal_of :: "(json \<Rightarrow> 'd option) \<Rightarrow> json \<Rightarrow> exn + 'd" where
  "decimal_of dec v = (case dec v of None \<Rightarrow> Inl InvalidOperation | Some d \<Rightarrow> Inr d)"

section \<open>payments/providers/mpesa.py\<close>

text \<open>\<open>s.startswith(p)\<close> and the slice \<open>s[n:]\<close>.\<close>

definition startswith :: "string \<Rightarrow> string \<Rightarrow> bool" where
  "startswith s p \<longleftrightarrow> take (length p) s = p"

text \<open>The phone number as \<open>initiate_stk_push\<close> rewrites it (lines 121-125).\<close>

definition mpesa_phone_number :: "string \<Rightarrow> string" where
  "mpesa_phone_number phone_number =
     (if startswith phone_number ''0'' then ''254'' @ drop 1 phone_number
      else if startswith phone_number ''+'' then drop 1 phone_number
      else phone_number)"

text \<open>
  \<open>int(Decimal(str(amount)))\<close> on an amount in hundredths: the whole units, rounded
  towards zero.
\<close>

definition whole_units :: "amount \<Rightarrow> int" where
  "whole_units a = (if 0 \<le> a then a div 100 else - ((- a) div 100))"

text \<open>
  The payload \<open>initiate_stk_push\<close> posts. The access token, the password and the
  timestamp come from the network and the clock and are arguments here.
\<close>

record stk_push_payload =
  BusinessShortCode :: string
  Password :: string
  Timestamp :: string
  TransactionType :: string
  Amount :: int
  PartyA :: string
  PartyB :: string
  PhoneNumber :: string
  CallBackURL :: string
  AccountReference :: string
  TransactionDesc :: string

definition stk_push_request ::
  "string \<Rightarrow> string \<Rightarrow> string \<Rightarrow> string \<Rightarrow> amount \<Rightarrow> string \<Rightarrow> string \<Rightarrow> string \<Rightarrow> stk_push_payload" where
  "stk_push_request shortcode password timestamp phone_number amt account_reference transaction_desc callback_url =
     (let phone = mpesa_phone_number phone_number;
          amt' = whole_units amt
      in \<lparr> BusinessShortCode = shortcode, Password = password, Timestamp = timestamp,
           TransactionType = ''CustomerPayBillOnline'', Amount = amt',
           PartyA = phone, PartyB = shortcode, PhoneNumber = phone,
           CallBackURL = callback_url,
           AccountReference = take 12 account_reference,
           TransactionDesc = take 13 transaction_desc \<rparr>)"

text \<open>
  The loop of \<open>MPesaProvider.parse_callback\<close> over the metadata items (lines 375-387).
\<close>

fun mpesa_parse_items :: "(json \<Rightarrow> 'd option) \<Rightarrow> json list \<Rightarrow> 'd pydict \<Rightarrow> exn + 'd pydict" where
  "mpesa_parse_items dec [] parsed = Inr parsed"
| "mpesa_parse_items dec (item # items) parsed =
     and_then (py_get item ''Name'' JNull) (\<lambda>name.
     and_then (py_get item ''Value'' JNull) (\<lambda>val.
       if py_eq_str name ''Amount'' then
         and_then (decimal_of dec val) (\<lambda>d.
           mpesa_parse_items dec items (AList.update ''amount'' (PyDecimal d) parsed))
       else if py_eq_str name ''MpesaReceiptNumber'' then
         mpesa_parse_items dec items (AList.update ''receipt_number'' (PyJson val) parsed)
       else if py_eq_str name ''TransactionDate'' then
         mpesa_parse_items dec items (AList.update ''transaction_date'' (PyJson val) parsed)
       else if py_eq_str name ''PhoneNumber'' then
         mpesa_parse_items dec items (AList.update ''phone_number'' (PyJson val) parsed)
       else mpesa_parse_items dec items parsed))"

text \<open>The body of the \<open>try\<close> block of \<open>MPesaProvider.parse_callback\<close> (lines 354-389).\<close>

definition mpesa_parse_try :: "(json \<Rightarrow> 'd option) \<Rightarrow> json \<Rightarrow> exn + 'd pydict" where
  "mpesa_parse_try dec callback_data =
     and_then (py_get callback_data ''Body'' (JDict [])) (\<lambda>body.
     and_then (py_get body ''stkCallback'' (JDict [])) (\<lambda>stk_callback.
     and_then (py_get stk_callback ''ResultCode'' JNull) (\<lambda>result_code.
     and_then (py_get stk_callback ''ResultDesc'' JNull) (\<lambda>result_desc.
     and_then (py_get stk_callback ''MerchantRequestID'' JNull) (\<lambda>merchant_request_id.
     and_then (py_get stk_callback ''CheckoutRequestID'' JNull) (\<lambda>checkout_request_id.
       let parsed = [(''result_code'', PyJson result_code),
                     (''result_desc'', PyJson result_desc),
                     (''merchant_request_id'', PyJson merchant_request_id),
                     (''checkout_request_id'', PyJson checkout_request_id),
                     (''success'', PyBool (py_eq_int result_code 0))]
       in if py_eq_int result_code 0 then
            and_then (py_get stk_callback ''CallbackMetadata'' (JDict [])) (\<lambda>callback_metadata.
            and_then (py_get callback_metadata ''Item'' (JList [])) (\<lambda>items.
            and_then (py_iter items) (\<lambda>its.
              mpesa_parse_items dec its parsed)))
          else Inr parsed))))))"

text \<open>
  The \<open>except Exception\<close> handler shared by both parsers: it logs and returns
  \<open>{'success': False, 'error': str(e)}\<close>.
\<close>

definition parse_failure :: "exn \<Rightarrow> 'd pydict" where
  "parse_failure e = [(''success'', PyBool False), (''error'', PyStr (exn_str e))]"

text \<open>
  \<open>MPesaProvider.parse_callback\<close>. The result is \<open>Inr\<close> of the dictionary returned,
  or \<open>Inl\<close> of an exception that leaves the function.
\<close>

definition mpesa_parse_callback :: "(json \<Rightarrow> 'd option) \<Rightarrow> json \<Rightarrow> exn + 'd pydict" where
  "mpesa_parse_callback dec callback_data =
     (case mpesa_parse_try dec callback_data of
        Inr parsed \<Rightarrow> Inr parsed
      | Inl e \<Rightarrow> Inr (parse_failure e))"

section \<open>payments/providers/airtel.py\<close>

text \<open>The phone number as \<open>initiate_collect\<close> rewrites it (lines 110-114).\<close>

definition airtel_phone_number :: "string \<Rightarrow> string" where
  "airtel_phone_number phone_number =
     (if startswith phone_number ''254'' then ''0'' @ drop 3 phone_number
      else if startswith phone_number ''+254'' then ''0'' @ drop 4 phone_number
      else phone_number)"

text \<open>
  The payload \<open>initiate_collect\<close> posts (\<open>float(amount)\<close> is kept as the decimal
  amount).
\<close>

record collect_payload =
  reference :: string
  subscriber_country :: string
  subscriber_currency :: string
  subscriber_msisdn :: string
  transaction_amount :: amount
  transaction_country :: string
  transaction_currency :: string
  transaction_id :: string

definition collect_request :: "string \<Rightarrow> amount \<Rightarrow> string \<Rightarrow> collect_payload" where
  "collect_request phone_number amt ref =
     (let phone = airtel_phone_number phone_number
      in \<lparr> reference = ref,
           subscriber_country = ''KE'', subscriber_currency = ''KES'',
           subscriber_msisdn = phone,
           transaction_amount = amt,
           transaction_country = ''KE'', transaction_currency = ''KES'',
           transaction_id = ref \<rparr>)"

text \<open>
  The body of the \<open>try\<close> block of \<open>AirtelProvider.parse_callback\<close> (lines 254-280).
  After \<open>transaction.get\<close> has succeeded \<open>transaction\<close> is a dictionary, so
  \<open>'amount' in transaction\<close> is a test on its keys and \<open>transaction['amount']\<close>
  reads the key found.
\<close>

definition airtel_parse_try :: "(json \<Rightarrow> 'd option) \<Rightarrow> json \<Rightarrow> exn + 'd pydict" where
  "airtel_parse_try dec callback_data =
     and_then (py_get callback_data ''transaction'' (JDict [])) (\<lambda>txn.
     and_then (py_get txn ''status'' JNull) (\<lambda>status.
     and_then (py_get txn ''id'' JNull) (\<lambda>txn_id.
     and_then (py_get txn ''airtel_money_id'' JNull) (\<lambda>airtel_money_id.
       let parsed = [(''status'', PyJson status),
                     (''transaction_id'', PyJson txn_id),
                     (''airtel_money_id'', PyJson airtel_money_id),
                     (''success'', PyBool (py_eq_str status ''TS'' \<or> py_eq_str status ''SUCCESS''))];
           fields = (case txn of JDict kvs \<Rightarrow> kvs | _ \<Rightarrow> [])
       in and_then (case map_of fields ''amount'' of
                      None \<Rightarrow> Inr parsed
                    | Some a \<Rightarrow> and_then (decimal_of dec a) (\<lambda>d.
                        Inr (AList.update ''amount'' (PyDecimal d) parsed))) (\<lambda>parsed.
          let parsed = (case map_of fields ''currency'' of
                          None \<Rightarrow> parsed
                        | Some c \<Rightarrow> AList.update ''currency'' (PyJson c) parsed)
          in and_then (py_get callback_data ''subscriber'' (JDict [])) (\<lambda>subscriber.
             if py_truthy subscriber then
               and_then (py_get subscriber ''msisdn'' JNull) (\<lambda>msisdn.
               and_then (py_get subscriber ''country'' JNull) (\<lambda>country.
                 Inr (AList.update ''country'' (PyJson country)
                       (AList.update ''phone_number'' (PyJson msisdn) parsed))))
             else Inr parsed))))))"

definition airtel_parse_callback :: "(json \<Rightarrow> 'd option) \<Rightarrow> json \<Rightarrow> exn + 'd pydict" where
  "airtel_parse_callback dec callback_data =
     (case airtel_parse_try dec callback_data of
        Inr parsed \<Rightarrow> Inr parsed
      | Inl e \<Rightarrow> Inr (parse_failure e))"

section \<open>payments/models.py: PaymentIntent\<close>

datatype intent_status =
  Intent_created | Intent_requires_action | Intent_processing
  | Intent_succeeded | Intent_failed | Intent_cancelled

datatype provider = Mpesa | Airtel | Pesapal | Flutterwave

datatype next_action = Stk_push | Collect | Redirect | No_action

record PaymentIntent =
  pi_id :: uuid
  pi_order :: uuid
  pi_user :: nat
  pi_amount :: amount
  pi_currency :: string
  pi_provider :: provider
  pi_payment_method :: "uuid option"
  pi_status :: intent_status
  pi_next_action :: next_action
  pi_idempotency_key :: string
  pi_provider_transaction_id :: string
  pi_checkout_request_id :: string
  pi_merchant_request_id :: string
  pi_error_message :: string
  pi_expires_at :: datetime

datatype method_type = Method_mpesa | Method_airtel | Method_card_stub

record PaymentMethod =
  pm_id :: uuid
  pm_user :: nat
  pm_method_type :: method_type
  pm_phone_number :: string
  pm_is_default :: bool
  pm_is_active :: bool

record Payment =
  pay_id :: uuid
  pay_payment_intent :: uuid
  pay_order :: uuid
  pay_user :: nat
  pay_amount :: amount
  pay_provider_transaction_id :: string
  pay_created_at :: datetime

datatype webhook_status =
  Webhook_pending | Webhook_processing | Webhook_processed | Webhook_failed | Webhook_ignored

record WebhookEvent =
  wh_id :: uuid
  wh_provider :: provider
  wh_provider_event_id :: string
  wh_payload :: json
  wh_status :: webhook_status
  wh_error_message :: string
  wh_payment_intent :: "uuid option"
  wh_payment :: "uuid option"

datatype entry_type = Debit | Credit

datatype account_type = Revenue | Liability | Expense | Asset

record LedgerEntry =
  le_payment :: "uuid option"
  le_refund :: "uuid option"
  le_entry_type :: entry_type
  le_account_type :: account_type
  le_amount :: amount
  le_currency :: string
  le_description :: string

section \<open>commerce/models.py\<close>

datatype order_status =
  Order_pending | Order_processing | Order_paid | Order_failed | Order_refunded | Order_cancelled

record Order =
  ord_id :: uuid
  ord_user :: nat
  ord_status :: order_status
  ord_subtotal :: amount
  ord_tax_amount :: amount
  ord_total :: amount

record LineItem =
  li_id :: uuid
  li_order :: uuid
  li_product :: uuid
  li_price :: uuid
  li_quantity :: nat
  li_unit_price :: amount
  li_total_price :: amount

record Price =
  price_id :: uuid
  price_amount :: amount

section \<open>subscriptions/models.py\<close>

datatype subscription_status =
  Sub_active | Sub_past_due | Sub_unpaid | Sub_cancelled | Sub_incomplete | Sub_trialing

record Subscription =
  sub_id :: uuid
  sub_user :: nat
  sub_product :: uuid
  sub_price :: uuid
  sub_status :: subscription_status
  sub_current_period_start :: datetime
  sub_current_period_end :: datetime
  sub_grace_until :: "datetime option"
  sub_ended_at :: "datetime option"

datatype attempt_status =
  Attempt_pending | Attempt_processing | Attempt_succeeded | Attempt_failed

record SubscriptionRenewalAttempt =
  att_id :: uuid
  att_subscription :: uuid
  att_attempt_number :: nat
  att_status :: attempt_status
  att_payment_intent :: "uuid option"
  att_order :: "uuid option"
  att_error_message :: string
  att_scheduled_at :: datetime
  att_created_at :: datetime

record DunningSchedule =
  ds_name :: string
  ds_retry_schedule :: json
  ds_grace_period_days :: nat
  ds_cancel_subscription :: bool
  ds_downgrade_to_free :: bool
  ds_is_active :: bool
  ds_is_default :: bool

text \<open>\<open>DunningSchedule.get_retry_days\<close>.\<close>

definition get_retry_days :: "DunningSchedule \<Rightarrow> json list" where
  "get_retry_days ds =
     (case ds_retry_schedule ds of
        JList xs \<Rightarrow> xs
      | _ \<Rightarrow> [JInt 0, JInt 1, JInt 3, JInt 7])"

section \<open>The database and the task queue\<close>

text \<open>
  A call handed to Celery with \<open>.delay\<close>: it runs later, in a worker.
\<close>

datatype task_call =
  Initiate_subscription_payment uuid
  | Send_dunning_notification uuid nat
  | Send_admin_alert string string

text \<open>
  The state the tasks work on: one list of rows per table, the queue of delayed calls,
  and the supply of primary keys (\<open>uuid.uuid4\<close> is modelled as drawing the next unused
  number). The tables \<open>payment_methods\<close> and \<open>dunning_schedules\<close> are kept in the order
  of their \<open>Meta.ordering\<close>, which is what \<open>.first()\<close> reads; the tasks never insert
  into them.
\<close>

record world =
  payment_methods :: "PaymentMethod list"
  intents :: "PaymentIntent list"
  payments :: "Payment list"
  webhook_events :: "WebhookEvent list"
  ledger_entries :: "LedgerEntry list"
  orders :: "Order list"
  line_items :: "LineItem list"
  prices :: "Price list"
  subscriptions :: "Subscription list"
  renewal_attempts :: "SubscriptionRenewalAttempt list"
  dunning_schedules :: "DunningSchedule list"
  queue :: "task_call list"
  next_uuid :: uuid

text \<open>\<open>Model.objects.get(id=k)\<close> and the read of a foreign key.\<close>

definition get_row :: "('a \<Rightarrow> uuid) \<Rightarrow> 'a list \<Rightarrow> uuid \<Rightarrow> exn + 'a" where
  "get_row key tbl k =
     (case find (\<lambda>r. key r = k) tbl of None \<Rightarrow> Inl DoesNotExist | Some r \<Rightarrow> Inr r)"

text \<open>\<open>instance.save()\<close>: the row with the instance's primary key is overwritten.\<close>

definition save_row :: "('a \<Rightarrow> uuid) \<Rightarrow> 'a \<Rightarrow> 'a list \<Rightarrow> 'a list" where
  "save_row key r tbl = map (\<lambda>x. if key x = key r then r else x) tbl"

definition save_attempt :: "SubscriptionRenewalAttempt \<Rightarrow> world \<Rightarrow> world" where
  "save_attempt a w = w\<lparr>renewal_attempts := save_row att_id a (renewal_attempts w)\<rparr>"

definition save_subscription :: "Subscription \<Rightarrow> world \<Rightarrow> world" where
  "save_subscription s w = w\<lparr>subscriptions := save_row sub_id s (subscriptions w)\<rparr>"

definition save_intent :: "PaymentIntent \<Rightarrow> world \<Rightarrow> world" where
  "save_intent p w = w\<lparr>intents := save_row pi_id p (intents w)\<rparr>"

text \<open>\<open>str\<close> of a non-negative integer.\<close>

fun string_of_nat :: "nat \<Rightarrow> string" where
  "string_of_nat n =
     (if n < 10 then [char_of (48 + n)]
      else string_of_nat (n div 10) @ [char_of (48 + n mod 10)])"

declare string_of_nat.simps [simp del]

section \<open>payments/tasks.py: initiate\_subscription\_payment\<close>

text \<open>
  \<open>PaymentIntent.objects.create(...)\<close>: the column \<open>idempotency_key\<close> is declared
  \<open>unique=True\<close> (models.py, line 137), so the insert of a row whose key is already in
  the table raises \<open>IntegrityError\<close> and writes nothing. Otherwise the row is added.
\<close>

definition create_payment_intent :: "PaymentIntent \<Rightarrow> world \<Rightarrow> exn + world" where
  "create_payment_intent p w =
     (if pi_idempotency_key p \<in> set (map pi_idempotency_key (intents w))
      then Inl IntegrityError
      else Inr (w\<lparr>intents := intents w @ [p], next_uuid := Suc (next_uuid w)\<rparr>))"

text \<open>
  The idempotency key of line 49; \<open>suffix\<close> is \<open>uuid.uuid4().hex[:8]\<close>, drawn at
  random on every run of the task.
\<close>

definition idempotency_key :: "Subscription \<Rightarrow> SubscriptionRenewalAttempt \<Rightarrow> string \<Rightarrow> string" where
  "idempotency_key subscription attempt suffix =
     ''sub_'' @ string_of_nat (sub_id subscription) @ ''_''
       @ string_of_nat (att_attempt_number attempt) @ ''_'' @ suffix"

text \<open>The intent the task builds (lines 51-62).\<close>

definition new_payment_intent ::
  "datetime \<Rightarrow> string \<Rightarrow> uuid \<Rightarrow> Subscription \<Rightarrow> SubscriptionRenewalAttempt \<Rightarrow> Order \<Rightarrow> PaymentMethod \<Rightarrow> PaymentIntent" where
  "new_payment_intent now suffix k subscription attempt order payment_method =
     \<lparr> pi_id = k,
       pi_order = ord_id order,
       pi_user = sub_user subscription,
       pi_amount = ord_total order,
       pi_currency = ''KES'',
       pi_provider =
         (if pm_method_type payment_method = Method_mpesa then Mpesa
          else if pm_method_type payment_method = Method_airtel then Airtel
          else Mpesa),
       pi_payment_method = Some (pm_id payment_method),
       pi_status = Intent_created,
       pi_next_action =
         (if pm_method_type payment_method = Method_mpesa then Stk_push else Collect),
       pi_idempotency_key = idempotency_key subscription attempt suffix,
       pi_provider_transaction_id = [],
       pi_checkout_request_id = [],
       pi_merchant_request_id = [],
       pi_error_message = [],
       pi_expires_at = now + hours 1 \<rparr>"

text \<open>
  What the provider answers is not the repository's to decide; it is an argument of the
  task. \<open>stk\<close> is the outcome of \<open>MPesaProvider().initiate_stk_push(...)\<close>: an
  exception, or the values \<open>response.get('CheckoutRequestID')\<close> and
  \<open>response.get('MerchantRequestID')\<close> (\<open>None\<close> when the key is missing).
  \<open>collect\<close> is the outcome of \<open>AirtelProvider().initiate_collect(...)\<close>: an
  exception, or the value of \<open>response.get('data', {}).get('id', '')\<close>. Storing
  \<open>None\<close> in a column that is not nullable makes \<open>save()\<close> raise
  \<open>IntegrityError\<close>.
\<close>

type_synonym stk_outcome = "exn + (string option \<times> string option)"
type_synonym collect_outcome = "exn + string option"

text \<open>
  The \<open>try\<close> block (lines 27-99): the state it leaves, and the exception that ends
  it, if any.
\<close>

definition initiate_try ::
  "datetime \<Rightarrow> string \<Rightarrow> stk_outcome \<Rightarrow> collect_outcome \<Rightarrow> uuid \<Rightarrow> world \<Rightarrow> world \<times> exn option" where
  "initiate_try now suffix stk collect renewal_attempt_id w =
     (case get_row att_id (renewal_attempts w) renewal_attempt_id of
        Inl e \<Rightarrow> (w, Some e)
      | Inr attempt \<Rightarrow>
     (case get_row sub_id (subscriptions w) (att_subscription attempt) of
        Inl e \<Rightarrow> (w, Some e)
      | Inr subscription \<Rightarrow>
     (case (case att_order attempt of
              None \<Rightarrow> Inr None
            | Some k \<Rightarrow> and_then (get_row ord_id (orders w) k) (\<lambda>order. Inr (Some order))) of
        Inl e \<Rightarrow> (w, Some e)
      | Inr order_opt \<Rightarrow>
     (case find (\<lambda>m. pm_user m = sub_user subscription \<and> pm_is_default m \<and> pm_is_active m)
             (payment_methods w) of
        None \<Rightarrow>
          (save_subscription (subscription\<lparr>sub_status := Sub_past_due\<rparr>)
             (save_attempt (attempt\<lparr>att_status := Attempt_failed,
                                    att_error_message := ''No default payment method''\<rparr>) w),
           None)
      | Some payment_method \<Rightarrow>
     (case order_opt of
        None \<Rightarrow> (w, Some AttributeError)
      | Some order \<Rightarrow>
     (let payment_intent =
            new_payment_intent now suffix (next_uuid w) subscription attempt order payment_method
      in case create_payment_intent payment_intent w of
        Inl e \<Rightarrow> (w, Some e)
      | Inr w1 \<Rightarrow>
     (let w2 = save_attempt (attempt\<lparr>att_payment_intent := Some (pi_id payment_intent),
                                     att_status := Attempt_processing\<rparr>) w1
      in if pm_method_type payment_method = Method_mpesa then
           (case stk of
              Inl e \<Rightarrow> (w2, Some e)
            | Inr (Some checkout, Some merchant) \<Rightarrow>
                (save_intent (payment_intent\<lparr>pi_checkout_request_id := checkout,
                                              pi_merchant_request_id := merchant,
                                              pi_status := Intent_requires_action\<rparr>) w2, None)
            | Inr _ \<Rightarrow> (w2, Some IntegrityError))
         else if pm_method_type payment_method = Method_airtel then
           (case collect of
              Inl e \<Rightarrow> (w2, Some e)
            | Inr (Some txn) \<Rightarrow>
                (save_intent (payment_intent\<lparr>pi_provider_transaction_id := txn,
                                              pi_status := Intent_requires_action\<rparr>) w2, None)
            | Inr None \<Rightarrow> (w2, Some IntegrityError))
         else (w2, None))))))))"

text \<open>
  The task with its handler (lines 101-110): on an exception the attempt is read again,
  marked \<open>failed\<close> with the exception's text and saved (a failure of that is passed
  over), and the exception is raised again. The result is the state left and the
  exception the task ends with, if any.
\<close>

definition initiate_subscription_payment ::
  "datetime \<Rightarrow> string \<Rightarrow> stk_outcome \<Rightarrow> collect_outcome \<Rightarrow> uuid \<Rightarrow> world \<Rightarrow> world \<times> exn option" where
  "initiate_subscription_payment now suffix stk collect renewal_attempt_id w =
     (case initiate_try now suffix stk collect renewal_attempt_id w of
        (w', None) \<Rightarrow> (w', None)
      | (w', Some e) \<Rightarrow>
          ((case get_row att_id (renewal_attempts w') renewal_attempt_id of
              Inl _ \<Rightarrow> w'
            | Inr attempt \<Rightarrow>
                save_attempt (attempt\<lparr>att_status := Attempt_failed,
                                       att_error_message := exn_str e\<rparr>) w'),
           Some e))"

section \<open>payments/tasks.py: cleanup\_expired\_intents\<close>

text \<open>
  The queryset \<open>PaymentIntent.objects.filter(status__in=['created', 'requires_action'],
  expires_at__lt=now)\<close> as a predicate on a row.
\<close>

definition expired_intents :: "datetime \<Rightarrow> PaymentIntent \<Rightarrow> bool" where
  "expired_intents now p \<longleftrightarrow>
     pi_status p \<in> set [Intent_created, Intent_requires_action] \<and> pi_expires_at p < now"

text \<open>
  \<open>expired_intents.update(status='cancelled', error_message='Payment intent expired')\<close>
  on one row of the table.
\<close>

definition expire_update :: "datetime \<Rightarrow> PaymentIntent \<Rightarrow> PaymentIntent" where
  "expire_update now p =
     (if expired_intents now p
      then p\<lparr>pi_status := Intent_cancelled, pi_error_message := ''Payment intent expired''\<rparr>
      else p)"

text \<open>
  The task on the table of intents: it returns \<open>{'cleaned': count}\<close> and the table
  after the update.
\<close>

definition cleanup_expired_intents :: "datetime \<Rightarrow> PaymentIntent list \<Rightarrow> nat \<times> PaymentIntent list" where
  "cleanup_expired_intents now tbl =
     (let count = length (filter (expired_intents now) tbl)
      in (count, map (expire_update now) tbl))"

text \<open>
  Repeated runs of the sweep at the instants \<open>ts\<close>, in that order. The result is the
  final table together with, for each run, the list of primary keys of the rows the run
  has written.
\<close>

fun cleanup_runs :: "datetime list \<Rightarrow> PaymentIntent list \<Rightarrow> uuid list list \<times> PaymentIntent list" where
  "cleanup_runs [] tbl = ([], tbl)"
| "cleanup_runs (t # ts) tbl =
     (let written = map pi_id (filter (expired_intents t) tbl);
          (rest, tbl') = cleanup_runs ts (snd (cleanup_expired_intents t tbl))
      in (written # rest, tbl'))"

text \<open>How many of the runs have written the row with primary key \<open>k\<close>.\<close>

definition times_written :: "uuid \<Rightarrow> uuid list list \<Rightarrow> nat" where
  "times_written k runs = length (filter (\<lambda>written. k \<in> set written) runs)"

section \<open>payments/tasks.py: reconcile\_daily\_payments\<close>

text \<open>
  \<open>timezone.now()\<close> is an instant in UTC; \<open>replace(hour=0, minute=0, second=0,
  microsecond=0)\<close> is the start of its day and \<open>replace(hour=23, minute=59, second=59,
  microsecond=999999)\<close> the last microsecond of it.
\<close>

definition start_of_day :: "datetime \<Rightarrow> datetime" where
  "start_of_day t = t - t mod microseconds_per_day"

definition end_of_day :: "datetime \<Rightarrow> datetime" where
  "end_of_day t = start_of_day t + microseconds_per_day - 1"

text \<open>The payments of the window (lines 123-131).\<close>

definition payments_of_yesterday :: "datetime \<Rightarrow> world \<Rightarrow> Payment list" where
  "payments_of_yesterday now w =
     (let yesterday = now - days 1
      in filter (\<lambda>p. start_of_day yesterday \<le> pay_created_at p
                      \<and> pay_created_at p \<le> end_of_day yesterday) (payments w))"

text \<open>An entry of the list \<open>mismatches\<close>: the payment, and for the first kind its order.\<close>

datatype mismatch = Order_not_marked_as_paid uuid uuid | No_processed_webhook_event uuid

text \<open>
  \<open>WebhookEvent.objects.filter(payment=payment, status='processed').exists()\<close>.
\<close>

definition webhook_exists :: "world \<Rightarrow> Payment \<Rightarrow> bool" where
  "webhook_exists w payment \<longleftrightarrow>
     list_ex (\<lambda>e. wh_payment e = Some (pay_id payment) \<and> wh_status e = Webhook_processed)
       (webhook_events w)"

text \<open>The loop over the payments (lines 135-154); reading \<open>payment.order\<close> is a query.\<close>

fun reconcile_loop :: "world \<Rightarrow> Payment list \<Rightarrow> mismatch list \<Rightarrow> exn + mismatch list" where
  "reconcile_loop w [] mismatches = Inr mismatches"
| "reconcile_loop w (payment # rest) mismatches =
     and_then (get_row ord_id (orders w) (pay_order payment)) (\<lambda>order.
       let m1 = (if ord_status order \<noteq> Order_paid
                 then mismatches @ [Order_not_marked_as_paid (pay_id payment) (ord_id order)]
                 else mismatches);
           m2 = (if \<not> webhook_exists w payment
                 then m1 @ [No_processed_webhook_event (pay_id payment)]
                 else m1)
       in reconcile_loop w rest m2)"

text \<open>The value the task returns.\<close>

record reconcile_result =
  total_payments :: nat
  mismatches :: nat

text \<open>
  The task: an exception, or the value returned with the state left. The only write is
  the delayed call of \<open>send_admin_alert\<close>.
\<close>

definition reconcile_daily_payments :: "datetime \<Rightarrow> world \<Rightarrow> exn + (reconcile_result \<times> world)" where
  "reconcile_daily_payments now w =
     (let ps = payments_of_yesterday now w
      in and_then (reconcile_loop w ps []) (\<lambda>ms.
           let w' = (if ms \<noteq> []
                     then w\<lparr>queue := queue w @
                       [Send_admin_alert ''Payment Reconciliation Alert''
                          (''Found '' @ string_of_nat (length ms)
                             @ '' payment mismatches during reconciliation'')]\<rparr>
                     else w)
           in Inr (\<lparr>total_payments = length ps, mismatches = length ms\<rparr>, w')))"

text \<open>The alerts waiting in the queue.\<close>

definition admin_alerts :: "world \<Rightarrow> task_call list" where
  "admin_alerts w = filter (\<lambda>c. case c of Send_admin_alert _ _ \<Rightarrow> True | _ \<Rightarrow> False) (queue w)"

section \<open>subscriptions/tasks.py: process\_subscription\_renewals\<close>

text \<open>
  The names bound where the loop body runs: the module's imports and definitions
  (lines 4-9, 12, 97) and the names imported inside the function (lines 18-20).
  A name that is not bound (and is not a builtin) raises \<open>NameError\<close> when it is
  evaluated.
\<close>

definition names_in_scope :: "string list" where
  "names_in_scope =
     [''shared_task'', ''timezone'', ''timedelta'', ''logging'', ''logger'',
      ''process_subscription_renewals'', ''process_dunning_schedule'',
      ''Subscription'', ''SubscriptionRenewalAttempt'', ''Order'', ''PaymentIntent'']"

text \<open>\<open>Decimal('0.00')\<close> at line 55: the name is looked up, then called.\<close>

definition eval_Decimal_zero :: "string list \<Rightarrow> exn + amount" where
  "eval_Decimal_zero scope = (if ''Decimal'' \<in> set scope then Inr 0 else Inl NameError)"

text \<open>The query of lines 37-41, as a predicate on a row.\<close>

definition existing_attempt :: "Subscription \<Rightarrow> SubscriptionRenewalAttempt \<Rightarrow> bool" where
  "existing_attempt subscription a \<longleftrightarrow>
     att_subscription a = sub_id subscription
     \<and> sub_current_period_end subscription - hours 1 \<le> att_scheduled_at a
     \<and> att_status a \<in> set [Attempt_pending, Attempt_processing]"

text \<open>\<open>subscription.renewal_attempts.count()\<close>.\<close>

definition attempts_count :: "world \<Rightarrow> Subscription \<Rightarrow> nat" where
  "attempts_count w subscription =
     length (filter (\<lambda>a. att_subscription a = sub_id subscription) (renewal_attempts w))"

text \<open>
  Lines 51-81 for one subscription: the keyword arguments of \<open>Order.objects.create\<close>
  are evaluated from left to right before the call, so an exception among them leaves
  the database as it was.
\<close>

definition renew_try :: "datetime \<Rightarrow> Subscription \<Rightarrow> world \<Rightarrow> exn + world" where
  "renew_try now subscription w =
     and_then (get_row price_id (prices w) (sub_price subscription)) (\<lambda>price.
     and_then (eval_Decimal_zero names_in_scope) (\<lambda>zero.
       let k = next_uuid w;
           order = \<lparr> ord_id = k, ord_user = sub_user subscription, ord_status = Order_pending,
                     ord_subtotal = price_amount price, ord_tax_amount = zero,
                     ord_total = price_amount price \<rparr>;
           line_item = \<lparr> li_id = k + 1, li_order = k, li_product = sub_product subscription,
                         li_price = sub_price subscription, li_quantity = 1,
                         li_unit_price = price_amount price,
                         li_total_price = price_amount price \<rparr>;
           attempt = \<lparr> att_id = k + 2, att_subscription = sub_id subscription,
                       att_attempt_number = attempts_count w subscription + 1,
                       att_status = Attempt_pending, att_payment_intent = None,
                       att_order = Some k, att_error_message = [],
                       att_scheduled_at = now, att_created_at = now \<rparr>
       in Inr (w\<lparr> orders := orders w @ [order],
                  line_items := line_items w @ [line_item],
                  renewal_attempts := renewal_attempts w @ [attempt],
                  queue := queue w @ [Initiate_subscription_payment (k + 2)],
                  next_uuid := k + 3 \<rparr>)))"

text \<open>The counters the task returns.\<close>

record renewal_result =
  renewed :: nat
  failed :: nat

text \<open>The loop (lines 34-88) over the subscriptions the query has selected.\<close>

fun renewal_loop ::
  "datetime \<Rightarrow> Subscription list \<Rightarrow> renewal_result \<times> world \<Rightarrow> renewal_result \<times> world" where
  "renewal_loop now [] rw = rw"
| "renewal_loop now (subscription # rest) (r, w) =
     (if list_ex (existing_attempt subscription) (renewal_attempts w)
      then renewal_loop now rest (r, w)
      else case renew_try now subscription w of
             Inr w' \<Rightarrow> renewal_loop now rest (r\<lparr>renewed := renewed r + 1\<rparr>, w')
           | Inl e \<Rightarrow> renewal_loop now rest (r\<lparr>failed := failed r + 1\<rparr>, w))"

text \<open>The query of lines 26-29.\<close>

definition subscriptions_due :: "datetime \<Rightarrow> world \<Rightarrow> Subscription list" where
  "subscriptions_due now w =
     filter (\<lambda>s. sub_status s = Sub_active \<and> sub_current_period_end s \<le> now) (subscriptions w)"

definition process_subscription_renewals :: "datetime \<Rightarrow> world \<Rightarrow> renewal_result \<times> world" where
  "process_subscription_renewals now w =
     renewal_loop now (subscriptions_due now w) (\<lparr>renewed = 0, failed = 0\<rparr>, w)"

section \<open>subscriptions/tasks.py: process\_dunning\_schedule\<close>

text \<open>
  \<open>order_by('-created_at').first()\<close>: a row with the greatest \<open>created_at\<close>, the
  first of them in the table where several share it.
\<close>

fun latest_by :: "('a \<Rightarrow> datetime) \<Rightarrow> 'a list \<Rightarrow> 'a option" where
  "latest_by f [] = None"
| "latest_by f (x # xs) =
     (case latest_by f xs of
        None \<Rightarrow> Some x
      | Some y \<Rightarrow> if f x < f y then Some y else Some x)"

text \<open>The query of lines 123-125.\<close>

definition latest_attempt :: "world \<Rightarrow> Subscription \<Rightarrow> SubscriptionRenewalAttempt option" where
  "latest_attempt w subscription =
     latest_by att_created_at
       (filter (\<lambda>a. att_subscription a = sub_id subscription \<and> att_status a = Attempt_failed)
          (renewal_attempts w))"

text \<open>Line 131, and the loop of lines 134-138.\<close>

definition days_since_failure :: "datetime \<Rightarrow> SubscriptionRenewalAttempt \<Rightarrow> int" where
  "days_since_failure now latest = timedelta_days (now - att_created_at latest)"

definition should_retry :: "json list \<Rightarrow> int \<Rightarrow> bool" where
  "should_retry retry_days d = list_ex (\<lambda>retry_day. py_eq_int retry_day d) retry_days"

text \<open>Lines 140-158: the new attempt and the two delayed calls.\<close>

definition create_retry :: "datetime \<Rightarrow> Subscription \<Rightarrow> SubscriptionRenewalAttempt \<Rightarrow> world \<Rightarrow> world" where
  "create_retry now subscription latest w =
     (let k = next_uuid w;
          attempt = \<lparr> att_id = k, att_subscription = sub_id subscription,
                      att_attempt_number = attempts_count w subscription + 1,
                      att_status = Attempt_pending, att_payment_intent = None,
                      att_order = att_order latest, att_error_message = [],
                      att_scheduled_at = now, att_created_at = now \<rparr>
      in w\<lparr> renewal_attempts := renewal_attempts w @ [attempt],
             queue := queue w @ [Initiate_subscription_payment k,
                                 Send_dunning_notification (sub_id subscription)
                                   (att_attempt_number attempt)],
             next_uuid := k + 1 \<rparr>)"

text \<open>Lines 161-170: the end of the grace period.\<close>

definition grace_expired :: "datetime \<Rightarrow> Subscription \<Rightarrow> bool" where
  "grace_expired now subscription \<longleftrightarrow>
     (case sub_grace_until subscription of None \<Rightarrow> False | Some g \<Rightarrow> g < now)"

definition apply_terminal_action :: "datetime \<Rightarrow> DunningSchedule \<Rightarrow> Subscription \<Rightarrow> world \<Rightarrow> world" where
  "apply_terminal_action now dunning_schedule subscription w =
     (if grace_expired now subscription then
        save_subscription
          (if ds_cancel_subscription dunning_schedule
           then subscription\<lparr>sub_status := Sub_cancelled, sub_ended_at := Some now\<rparr>
           else if ds_downgrade_to_free dunning_schedule
           then subscription\<lparr>sub_status := Sub_unpaid\<rparr>
           else subscription) w
      else w)"

text \<open>
  The loop body for one subscription (lines 121-170): the state left, and whether a
  retry was started.
\<close>

definition dunning_step :: "datetime \<Rightarrow> DunningSchedule \<Rightarrow> Subscription \<Rightarrow> world \<Rightarrow> world \<times> bool" where
  "dunning_step now dunning_schedule subscription w =
     (case latest_attempt w subscription of
        None \<Rightarrow> (w, False)
      | Some latest \<Rightarrow>
          let retry = should_retry (get_retry_days dunning_schedule) (days_since_failure now latest);
              w1 = (if retry then create_retry now subscription latest w else w)
          in (apply_terminal_action now dunning_schedule subscription w1, retry))"

fun dunning_loop ::
  "datetime \<Rightarrow> DunningSchedule \<Rightarrow> Subscription list \<Rightarrow> nat \<times> world \<Rightarrow> nat \<times> world" where
  "dunning_loop now ds [] pw = pw"
| "dunning_loop now ds (subscription # rest) (processed_count, w) =
     (case dunning_step now ds subscription w of
        (w', retry) \<Rightarrow>
          dunning_loop now ds rest ((if retry then processed_count + 1 else processed_count), w'))"

text \<open>The task: \<open>{'processed': n}\<close> and the state left.\<close>

definition process_dunning_schedule :: "datetime \<Rightarrow> world \<Rightarrow> nat \<times> world" where
  "process_dunning_schedule now w =
     (case find (\<lambda>d. ds_is_active d \<and> ds_is_default d) (dunning_schedules w) of
        None \<Rightarrow> (0, w)
      | Some dunning_schedule \<Rightarrow>
          dunning_loop now dunning_schedule
            (filter (\<lambda>s. sub_status s = Sub_past_due) (subscriptions w)) (0, w))"

section \<open>The worker\<close>

text \<open>
  A Celery worker runs the delayed calls in the order they were queued. The two
  notification tasks write no table modelled here. The random suffix and the providers'
  answers are arguments.
\<close>

fun run_calls ::
  "datetime \<Rightarrow> string \<Rightarrow> stk_outcome \<Rightarrow> collect_outcome \<Rightarrow> task_call list \<Rightarrow> world \<Rightarrow> world" where
  "run_calls now suffix stk collect [] w = w"
| "run_calls now suffix stk collect (Initiate_subscription_payment k # cs) w =
     run_calls now suffix stk collect cs
       (fst (initiate_subscription_payment now suffix stk collect k w))"
| "run_calls now suffix stk collect (c # cs) w = run_calls now suffix stk collect cs w"

definition worker :: "datetime \<Rightarrow> string \<Rightarrow> stk_outcome \<Rightarrow> collect_outcome \<Rightarrow> world \<Rightarrow> world" where
  "worker now suffix stk collect w =
     run_calls now suffix stk collect (queue w) (w\<lparr>queue := []\<rparr>)"

text \<open>
  The dunning sweep run at each of the instants \<open>ts\<close>, the worker emptying the queue
  after each run.
\<close>

fun dunning_sweeps ::
  "string \<Rightarrow> stk_outcome \<Rightarrow> collect_outcome \<Rightarrow> datetime list \<Rightarrow> world \<Rightarrow> world" where
  "dunning_sweeps suffix stk collect [] w = w"
| "dunning_sweeps suffix stk collect (t # ts) w =
     dunning_sweeps suffix stk collect ts
       (worker t suffix stk collect (snd (process_dunning_schedule t w)))"

text \<open>The attempts of a subscription created in the whole day \<open>d\<close> after the instant \<open>t0\<close>.\<close>

definition attempts_on_day :: "datetime \<Rightarrow> int \<Rightarrow> uuid \<Rightarrow> world \<Rightarrow> SubscriptionRenewalAttempt list" where
  "attempts_on_day t0 d k w =
     filter (\<lambda>a. att_subscription a = k \<and> timedelta_days (att_created_at a - t0) = d)
       (renewal_attempts w)"

section \<open>LedgerRecorder (spec, section 4.4)\<close>

text \<open>
  Modelled from the spec: the target of \<open>LedgerRecorder.Post(payment|refund,
  entries[])\<close>, a payment or a refund. The repository declares the table
  \<open>LedgerEntry\<close> and has no code that writes it.
\<close>

datatype post_target = For_payment uuid | For_refund uuid

text \<open>
  Modelled from the spec: the sums \<open>\<Sigma>debit\<close> and \<open>\<Sigma>credit\<close> of a list of
  entries, and the tie of an entry to the target of its posting (the columns
  \<open>payment\<close> and \<open>refund\<close> of the table); no code of the repository computes them.
\<close>

definition side_total :: "entry_type \<Rightarrow> LedgerEntry list \<Rightarrow> amount" where
  "side_total t es = sum_list (map le_amount (filter (\<lambda>e. le_entry_type e = t) es))"

definition attach :: "post_target \<Rightarrow> LedgerEntry \<Rightarrow> LedgerEntry" where
  "attach target e =
     (case target of
        For_payment k \<Rightarrow> e\<lparr>le_payment := Some k, le_refund := None\<rparr>
      | For_refund k \<Rightarrow> e\<lparr>le_payment := None, le_refund := Some k\<rparr>)"

text \<open>
  Modelled from the spec: \<open>LedgerRecorder.Post(payment|refund, entries[])\<close>, which
  the repository does not contain. It "validates \<open>\<Sigma>debit = \<Sigma>credit\<close> before
  persisting; entries are appended, never updated": an unbalanced posting is refused
  and writes nothing, a balanced one adds its entries, tied to the target, at the end
  of the table.
\<close>

definition Post :: "post_target \<Rightarrow> LedgerEntry list \<Rightarrow> world \<Rightarrow> exn + world" where
  "Post target entries w =
     (if side_total Debit entries = side_total Credit entries
      then Inr (w\<lparr>ledger_entries := ledger_entries w @ map (attach target) entries\<rparr>)
      else Inl (Exception ''unbalanced ledger posting''))"

text \<open>
  Modelled from the spec: a sequence of calls of \<open>LedgerRecorder.Post\<close>, which the
  repository does not contain; a refused posting leaves the ledger as it was.
\<close>

fun post_all :: "(post_target \<times> LedgerEntry list) list \<Rightarrow> world \<Rightarrow> world" where
  "post_all [] w = w"
| "post_all ((target, entries) # rest) w =
     (case Post target entries w of
        Inl e \<Rightarrow> post_all rest w
      | Inr w' \<Rightarrow> post_all rest w')"

text \<open>The ledger entries of one payment.\<close>

definition entries_of_payment :: "uuid \<Rightarrow> world \<Rightarrow> LedgerEntry list" where
  "entries_of_payment k w = filter (\<lambda>e. le_payment e = Some k) (ledger_entries w)"

definition balanced :: "uuid \<Rightarrow> world \<Rightarrow> bool" where
  "balanced k w \<longleftrightarrow>
     side_total Debit (entries_of_payment k w) = side_total Credit (entries_of_payment k w)"

text \<open>The ledger \<open>new\<close> keeps every entry of \<open>old\<close>, unchanged and in place.\<close>

definition extends_ledger :: "world \<Rightarrow> world \<Rightarrow> bool" where
  "extends_ledger old new \<longleftrightarrow>
     take (length (ledger_entries old)) (ledger_entries new) = ledger_entries old"

section \<open>WebhookProcessor (spec, section 4.3)\<close>

text \<open>
  Modelled from the spec: the canonical result of \<open>ParseCallback\<close>, with the fields
  of the spec's section 6, and the outcome of a delivery. The repository declares the
  table \<open>WebhookEvent\<close>, whose column \<open>provider_event_id\<close> is \<open>unique=True\<close>
  (models.py, line 220), and has no code that handles an inbound webhook.
\<close>

record canonical_result =
  cr_success :: bool
  cr_result_code :: int
  cr_external_transaction_id :: string
  cr_receipt_number :: string
  cr_amount :: amount
  cr_currency :: string
  cr_phone_number :: string
  cr_correlation_reference :: string

datatype delivery_outcome = Delivery_ignored | Delivery_processed | Delivery_failed

text \<open>
  Modelled from the spec: what the WebhookProcessor calls and the spec leaves open, as
  parameters. \<open>parse\<close> is the matching gateway's \<open>ParseCallback\<close>, \<open>resolve\<close>
  finds the intent a correlation reference names, \<open>entries_for\<close> gives the ledger
  entries of a payment.
\<close>

record gateway =
  parse :: "provider \<Rightarrow> json \<Rightarrow> canonical_result"
  resolve :: "world \<Rightarrow> canonical_result \<Rightarrow> PaymentIntent option"
  entries_for :: "Payment \<Rightarrow> LedgerEntry list"

text \<open>
  Modelled from the spec: marking the stored event of an identifier with a status, a
  message and the intent and payment it resolved ("mark event failed", "mark event
  processed"); the repository has no code that writes the table.
\<close>

definition set_event ::
  "string \<Rightarrow> webhook_status \<Rightarrow> string \<Rightarrow> uuid option \<Rightarrow> uuid option \<Rightarrow> world \<Rightarrow> world" where
  "set_event event_id st msg intent payment w =
     w\<lparr>webhook_events :=
         map (\<lambda>e. if wh_provider_event_id e = event_id
                   then e\<lparr>wh_status := st, wh_error_message := msg,
                           wh_payment_intent := intent, wh_payment := payment\<rparr>
                   else e) (webhook_events w)\<rparr>"

text \<open>
  Modelled from the spec: steps (2) to (6) of the WebhookProcessor, the settlement of
  an event that has just been stored; the repository does not contain it. "(3) Resolve
  the target PaymentIntent by provider correlation reference. (4) If resolution fails,
  mark event failed with UnresolvedReference. (5) Validate parsed amount equals intent
  amount exactly; mismatch: intent failed with ValidationMismatch, event failed, no
  Payment created. (6) On success: transition intent to succeeded, create the immutable
  Payment row, invoke LedgerRecorder, mark event processed. On business-level decline:
  intent failed, event processed." The steps say nothing on an intent that is already
  terminal, on a payment whose \<open>provider_transaction_id\<close> is already in the table, or
  on a posting the LedgerRecorder refuses: here the intent is settled as it resolves, the
  payment is inserted, and a refused posting leaves the ledger as it was.
\<close>

definition settle ::
  "gateway \<Rightarrow> datetime \<Rightarrow> provider \<Rightarrow> string \<Rightarrow> json \<Rightarrow> world \<Rightarrow> delivery_outcome \<times> world" where
  "settle g now prov event_id payload w =
     (let r = parse g prov payload
      in case resolve g w r of
        None \<Rightarrow> (Delivery_failed, set_event event_id Webhook_failed ''UnresolvedReference'' None None w)
      | Some intent \<Rightarrow>
          if cr_amount r \<noteq> pi_amount intent then
            (Delivery_failed,
             set_event event_id Webhook_failed ''ValidationMismatch'' (Some (pi_id intent)) None
               (save_intent (intent\<lparr>pi_status := Intent_failed,
                                     pi_error_message := ''ValidationMismatch''\<rparr>) w))
          else if cr_success r then
            (let payment = \<lparr> pay_id = next_uuid w, pay_payment_intent = pi_id intent,
                             pay_order = pi_order intent, pay_user = pi_user intent,
                             pay_amount = pi_amount intent,
                             pay_provider_transaction_id = cr_external_transaction_id r,
                             pay_created_at = now \<rparr>;
                 w1 = save_intent (intent\<lparr>pi_status := Intent_succeeded\<rparr>) w;
                 w2 = w1\<lparr>payments := payments w1 @ [payment], next_uuid := Suc (next_uuid w1)\<rparr>;
                 w3 = (case Post (For_payment (pay_id payment)) (entries_for g payment) w2 of
                         Inl e \<Rightarrow> w2 | Inr w' \<Rightarrow> w')
             in (Delivery_processed,
                 set_event event_id Webhook_processed [] (Some (pi_id intent))
                   (Some (pay_id payment)) w3))
          else
            (Delivery_processed,
             set_event event_id Webhook_processed [] (Some (pi_id intent)) None
               (save_intent (intent\<lparr>pi_status := Intent_failed\<rparr>) w)))"

text \<open>
  Modelled from the spec: step (1) of the WebhookProcessor, which the repository does
  not contain: "attempt an atomic insert-if-absent of \<open>provider_event_id\<close> into the
  event store; if it already exists, mark this delivery ignored and return success".
  A delivery whose identifier is new is stored as a pending event and settled.
\<close>

definition process_webhook ::
  "gateway \<Rightarrow> datetime \<Rightarrow> provider \<Rightarrow> string \<Rightarrow> json \<Rightarrow> world \<Rightarrow> delivery_outcome \<times> world" where
  "process_webhook g now prov event_id payload w =
     (if event_id \<in> set (map wh_provider_event_id (webhook_events w))
      then (Delivery_ignored, w)
      else settle g now prov event_id payload
             (w\<lparr>webhook_events := webhook_events w @
                  [\<lparr> wh_id = next_uuid w, wh_provider = prov, wh_provider_event_id = event_id,
                     wh_payload = payload, wh_status = Webhook_pending, wh_error_message = [],
                     wh_payment_intent = None, wh_payment = None \<rparr>],
                next_uuid := Suc (next_uuid w)\<rparr>))"

text \<open>
  Modelled from the spec: a sequence of deliveries (instant, provider, event identifier,
  payload) handled in order by the WebhookProcessor, which the repository does not
  contain.
\<close>

fun deliver_all ::
  "gateway \<Rightarrow> (datetime \<times> provider \<times> string \<times> json) list \<Rightarrow> world \<Rightarrow> world" where
  "deliver_all g [] w = w"
| "deliver_all g ((now, prov, event_id, payload) # rest) w =
     deliver_all g rest (snd (process_webhook g now prov event_id payload w))"

section \<open>Example data\<close>

text \<open>Rows and states used to run the definitions on concrete inputs.\<close>

definition ex_intent :: "uuid \<Rightarrow> intent_status \<Rightarrow> datetime \<Rightarrow> PaymentIntent" where
  "ex_intent k st t =
     \<lparr> pi_id = k, pi_order = 0, pi_user = 0, pi_amount = 100000, pi_currency = ''KES'',
       pi_provider = Mpesa, pi_payment_method = None, pi_status = st,
       pi_next_action = Stk_push, pi_idempotency_key = string_of_nat k,
       pi_provider_transaction_id = [], pi_checkout_request_id = [],
       pi_merchant_request_id = [], pi_error_message = [], pi_expires_at = t \<rparr>"

text \<open>A stand-in for \<open>Decimal(str(value))\<close>: integers convert, everything else is refused.\<close>

definition example_decimal :: "json \<Rightarrow> int option" where
  "example_decimal v = (case v of JInt i \<Rightarrow> Some (100 * i) | _ \<Rightarrow> None)"

text \<open>A database with no rows.\<close>

definition empty_world :: world where
  "empty_world =
     \<lparr> payment_methods = [], intents = [], payments = [], webhook_events = [],
       ledger_entries = [], orders = [], line_items = [], prices = [], subscriptions = [],
       renewal_attempts = [], dunning_schedules = [], queue = [], next_uuid = 100 \<rparr>"

text \<open>
  One subscription of user 7, whose period ended at instant 0 and whose grace period ends
  seven days later; its price; an order for it; an attempt to renew it; the user's M-Pesa
  number; a payment of the order.
\<close>

definition ex_subscription :: "subscription_status \<Rightarrow> Subscription" where
  "ex_subscription st =
     \<lparr> sub_id = 1, sub_user = 7, sub_product = 2, sub_price = 3, sub_status = st,
       sub_current_period_start = - days 30, sub_current_period_end = 0,
       sub_grace_until = Some (days 7), sub_ended_at = None \<rparr>"

definition ex_price :: Price where
  "ex_price = \<lparr> price_id = 3, price_amount = 500000 \<rparr>"

definition ex_order :: "order_status \<Rightarrow> Order" where
  "ex_order st =
     \<lparr> ord_id = 20, ord_user = 7, ord_status = st, ord_subtotal = 500000,
       ord_tax_amount = 0, ord_total = 500000 \<rparr>"

definition ex_attempt :: "uuid \<Rightarrow> nat \<Rightarrow> attempt_status \<Rightarrow> datetime \<Rightarrow> SubscriptionRenewalAttempt" where
  "ex_attempt k n st t =
     \<lparr> att_id = k, att_subscription = 1, att_attempt_number = n, att_status = st,
       att_payment_intent = None, att_order = Some 20, att_error_message = [],
       att_scheduled_at = t, att_created_at = t \<rparr>"

definition ex_payment_method :: PaymentMethod where
  "ex_payment_method =
     \<lparr> pm_id = 30, pm_user = 7, pm_method_type = Method_mpesa,
       pm_phone_number = ''0712345678'', pm_is_default = True, pm_is_active = True \<rparr>"

definition ex_payment :: "datetime \<Rightarrow> Payment" where
  "ex_payment t =
     \<lparr> pay_id = 40, pay_payment_intent = 50, pay_order = 20, pay_user = 7,
       pay_amount = 500000, pay_provider_transaction_id = ''QGH7XYZ'', pay_created_at = t \<rparr>"

definition ex_webhook_event :: "webhook_status \<Rightarrow> WebhookEvent" where
  "ex_webhook_event st =
     \<lparr> wh_id = 60, wh_provider = Mpesa, wh_provider_event_id = ''ws_CO_1'',
       wh_payload = JDict [], wh_status = st, wh_error_message = [],
       wh_payment_intent = Some 50, wh_payment = Some 40 \<rparr>"

text \<open>The schedule \<open>seed_data\<close> creates: retries on days 0, 1, 3 and 7, downgrade after the grace period.\<close>

definition default_schedule :: DunningSchedule where
  "default_schedule =
     \<lparr> ds_name = ''Default'', ds_retry_schedule = JList [JInt 0, JInt 1, JInt 3, JInt 7],
       ds_grace_period_days = 7, ds_cancel_subscription = False, ds_downgrade_to_free = True,
       ds_is_active = True, ds_is_default = True \<rparr>"

text \<open>An active subscription that is due for renewal, with no attempt yet.\<close>

definition renewal_world :: world where
  "renewal_world =
     empty_world\<lparr> subscriptions := [ex_subscription Sub_active], prices := [ex_price] \<rparr>"

text \<open>A pending renewal attempt of a user who has a default payment method.\<close>

definition payment_world :: world where
  "payment_world =
     empty_world\<lparr> subscriptions := [ex_subscription Sub_active],
                  renewal_attempts := [ex_attempt 10 1 Attempt_pending 0],
                  orders := [ex_order Order_pending],
                  payment_methods := [ex_payment_method] \<rparr>"

text \<open>
  A subscription past due whose renewal failed at instant 0, with the seeded schedule.
  The user has a default M-Pesa number.
\<close>

definition dunning_world :: world where
  "dunning_world =
     empty_world\<lparr> subscriptions := [ex_subscription Sub_past_due],
                  renewal_attempts := [ex_attempt 10 1 Attempt_failed 0],
                  orders := [ex_order Order_pending],
                  payment_methods := [ex_payment_method],
                  dunning_schedules := [default_schedule] \<rparr>"

text \<open>The same subscription with a second failed attempt, made on day 1.\<close>

definition dunning_world_two_failures :: world where
  "dunning_world_two_failures =
     dunning_world\<lparr> renewal_attempts :=
       [ex_attempt 10 1 Attempt_failed 0, ex_attempt 11 2 Attempt_failed (days 1 + hours 1)] \<rparr>"

text \<open>One payment made at 10:00 of day 0, whose order is still pending.\<close>

definition reconcile_world :: "WebhookEvent list \<Rightarrow> world" where
  "reconcile_world events =
     empty_world\<lparr> payments := [ex_payment (hours 10)], orders := [ex_order Order_pending],
                  webhook_events := events \<rparr>"

text \<open>A provider that fails every push, so that every retry fails.\<close>

definition stk_down :: stk_outcome where
  "stk_down = Inl (Exception ''M-Pesa STK Push failed'')"

definition collect_down :: collect_outcome where
  "collect_down = Inl (Exception ''Airtel Money collect failed'')"

text \<open>A provider that accepts the push, and the state after the task has run once on it.\<close>

definition stk_accepted :: stk_outcome where
  "stk_accepted = Inr (Some ''ws_CO_1'', Some ''mr_1'')"

definition initiated_world :: world where
  "initiated_world =
     fst (initiate_subscription_payment (hours 1) ''a1b2c3d4'' stk_accepted collect_down 10
            payment_world)"

text \<open>The dunning sweep every six hours, from 01:00 of day 0 to 19:00 of day \<open>n - 1\<close>.\<close>

definition six_hourly :: "nat \<Rightarrow> datetime list" where
  "six_hourly n = map (\<lambda>i. hours (6 * int i + 1)) [0..<4 * n]"

text \<open>A ledger entry not yet tied to a payment or a refund.\<close>

definition ex_entry :: "entry_type \<Rightarrow> account_type \<Rightarrow> amount \<Rightarrow> LedgerEntry" where
  "ex_entry t a n =
     \<lparr> le_payment = None, le_refund = None, le_entry_type = t, le_account_type = a,
       le_amount = n, le_currency = ''KES'', le_description = ''Subscription renewal'' \<rparr>"

text \<open>
  A gateway for the webhook processor: every payload reports a successful payment of
  5000.00 for the checkout request \<open>ws_CO_1\<close>; an intent is found by its checkout
  request; a payment is booked as a debit of the asset account and a credit of revenue.
\<close>

definition ex_gateway :: gateway where
  "ex_gateway =
     \<lparr> parse = (\<lambda>prov payload.
         \<lparr> cr_success = True, cr_result_code = 0, cr_external_transaction_id = ''QGH7XYZ'',
           cr_receipt_number = ''QGH7XYZ'', cr_amount = 500000, cr_currency = ''KES'',
           cr_phone_number = ''254712345678'', cr_correlation_reference = ''ws_CO_1'' \<rparr>),
       resolve = (\<lambda>w r. find (\<lambda>p. pi_checkout_request_id p = cr_correlation_reference r) (intents w)),
       entries_for = (\<lambda>p. [ex_entry Debit Asset (pay_amount p), ex_entry Credit Revenue (pay_amount p)]) \<rparr>"

section \<open>Idempotency keys of payment intents\<close>

text \<open>
  What the unique column does give: an insert with a used key is refused, a run of the
  task whose key is already in the table leaves the intents as they were, and the keys of
  the table stay distinct.
\<close>

lemma intents_save_attempt: "intents (save_attempt a w) = intents w"
  by (simp add: save_attempt_def)

lemma intents_save_subscription: "intents (save_subscription s w) = intents w"
  by (simp add: save_subscription_def)

lemma new_payment_intent_id: "pi_id (new_payment_intent now suffix k s a ord m) = k"
  by (simp add: new_payment_intent_def)

lemma new_payment_intent_key:
  "pi_idempotency_key (new_payment_intent now suffix k s a ord m) = idempotency_key s a suffix"
  by (simp add: new_payment_intent_def)

lemma create_payment_intent_used:
  "pi_idempotency_key p \<in> set (map pi_idempotency_key (intents w))
     \<Longrightarrow> create_payment_intent p w = Inl IntegrityError"
  by (simp add: create_payment_intent_def)

lemma create_payment_intent_new:
  "create_payment_intent p w = Inr w'
     \<Longrightarrow> intents w' = intents w @ [p]
         \<and> pi_idempotency_key p \<notin> set (map pi_idempotency_key (intents w))"
  by (auto simp: create_payment_intent_def split: if_splits)

lemma keys_save_row:
  assumes "pi_idempotency_key q = pi_idempotency_key p" and "pi_id q = pi_id p"
    and "\<forall>x \<in> set tbl. pi_id x \<noteq> pi_id p"
  shows "map pi_idempotency_key (save_row pi_id q (tbl @ [p]))
           = map pi_idempotency_key tbl @ [pi_idempotency_key p]"
  using assms by (simp add: save_row_def)

lemma initiate_intents:
  "intents (fst (initiate_subscription_payment now suffix stk collect k w))
     = intents (fst (initiate_try now suffix stk collect k w))"
  by (simp add: initiate_subscription_payment_def intents_save_attempt
      split: prod.splits option.splits sum.splits)

lemma initiate_try_keeps_keys_distinct:
  assumes "distinct (map pi_idempotency_key (intents w))"
    and "\<forall>x \<in> set (intents w). pi_id x \<noteq> next_uuid w"
  shows "distinct (map pi_idempotency_key (intents (fst (initiate_try now suffix stk collect k w))))"
  unfolding initiate_try_def using assms
  by (auto simp: Let_def intents_save_attempt intents_save_subscription save_intent_def
      new_payment_intent_id new_payment_intent_key keys_save_row
      split: sum.splits option.splits prod.splits dest!: create_payment_intent_new)

lemma initiate_keeps_keys_distinct:
  assumes "distinct (map pi_idempotency_key (intents w))"
    and "\<forall>p \<in> set (intents w). pi_id p < next_uuid w"
  shows "distinct (map pi_idempotency_key
           (intents (fst (initiate_subscription_payment now suffix stk collect k w))))"
proof -
  from assms(2) have "\<forall>x \<in> set (intents w). pi_id x \<noteq> next_uuid w" by auto
  from initiate_try_keeps_keys_distinct[OF assms(1) this] show ?thesis
    by (simp add: initiate_intents)
qed

lemma initiate_used_key:
  assumes "get_row att_id (renewal_attempts w) k = Inr attempt"
    and "get_row sub_id (subscriptions w) (att_subscription attempt) = Inr subscription"
    and "idempotency_key subscription attempt suffix \<in> set (map pi_idempotency_key (intents w))"
  shows "intents (fst (initiate_subscription_payment now suffix stk collect k w)) = intents w"
proof -
  have "intents (fst (initiate_try now suffix stk collect k w)) = intents w"
    unfolding initiate_try_def using assms
    by (simp add: Let_def intents_save_attempt intents_save_subscription
        create_payment_intent_used new_payment_intent_key
        split: sum.splits option.splits)
  then show ?thesis by (simp add: initiate_intents)
qed

text \<open>
  Claim C1, on the code. The claim says that creating an intent again with a used key
  returns the original intent unchanged, and that a renewal attempt has at most one
  intent even if the scheduler runs the task again. In the code the key ends in a suffix
  drawn at random on every run (line 49) and the intent is inserted with
  \<open>objects.create\<close>, never looked up. Here the task has run once for attempt 10, the
  push was accepted, and the table holds one intent for order 20 waiting for the payer.
  A second run for the same attempt draws another suffix and leaves two intents for
  order 20, both \<open>requires_action\<close>. A run with the same key does not return the
  original either: it ends with \<open>IntegrityError\<close>, creates nothing, and marks the
  attempt failed although its push had been accepted.
\<close>

theorem rerun_creates_second_intent:
  "map (\<lambda>p. (pi_order p, pi_status p, pi_idempotency_key p)) (intents initiated_world)
     = [(20, Intent_requires_action, ''sub_1_1_a1b2c3d4'')]
   \<and> map (\<lambda>a. (att_id a, att_status a)) (renewal_attempts initiated_world)
       = [(10, Attempt_processing)]
   \<and> map (\<lambda>p. (pi_order p, pi_status p, pi_idempotency_key p))
       (intents (fst (initiate_subscription_payment (hours 2) ''0f0f0f0f'' stk_accepted collect_down 10
            initiated_world)))
       = [(20, Intent_requires_action, ''sub_1_1_a1b2c3d4''),
          (20, Intent_requires_action, ''sub_1_1_0f0f0f0f'')]
   \<and> snd (initiate_subscription_payment (hours 2) ''0f0f0f0f'' stk_accepted collect_down 10
            initiated_world) = None
   \<and> snd (initiate_subscription_payment (hours 2) ''a1b2c3d4'' stk_accepted collect_down 10
            initiated_world) = Some IntegrityError
   \<and> intents (fst (initiate_subscription_payment (hours 2) ''a1b2c3d4'' stk_accepted collect_down 10
            initiated_world)) = intents initiated_world
   \<and> map (\<lambda>a. (att_id a, att_status a))
       (renewal_attempts (fst (initiate_subscription_payment (hours 2) ''a1b2c3d4'' stk_accepted
            collect_down 10 initiated_world)))
       = [(10, Attempt_failed)]"
  by code_simp

section \<open>Duplicate webhook deliveries\<close>

lemma webhook_events_save_intent: "webhook_events (save_intent p w) = webhook_events w"
  by (simp add: save_intent_def)

lemma event_ids_set_event:
  "map wh_provider_event_id (webhook_events (set_event k st msg i p w))
     = map wh_provider_event_id (webhook_events w)"
  by (simp add: set_event_def o_def cong: map_cong)

lemma webhook_events_Post:
  "webhook_events (case Post target entries w of Inl e \<Rightarrow> w | Inr w' \<Rightarrow> w') = webhook_events w"
  by (simp add: Post_def)

lemma event_ids_settle:
  "map wh_provider_event_id (webhook_events (snd (settle g now prov k payload w)))
     = map wh_provider_event_id (webhook_events w)"
  by (simp add: settle_def Let_def event_ids_set_event webhook_events_save_intent
      webhook_events_Post split: option.splits)

lemma event_ids_process_webhook:
  "set (map wh_provider_event_id (webhook_events (snd (process_webhook g now prov k payload w))))
     = insert k (set (map wh_provider_event_id (webhook_events w)))"
proof (cases "k \<in> set (map wh_provider_event_id (webhook_events w))")
  case True
  then show ?thesis by (auto simp: process_webhook_def)
next
  case False
  then show ?thesis
    by (simp only: process_webhook_def if_False event_ids_settle) simp
qed

lemma event_ids_deliver_all:
  "k \<in> set (map wh_provider_event_id (webhook_events w))
     \<Longrightarrow> k \<in> set (map wh_provider_event_id (webhook_events (deliver_all g ds w)))"
proof (induction ds arbitrary: w)
  case Nil
  then show ?case by simp
next
  case (Cons d ds)
  obtain now prov j payload where d: "d = (now, prov, j, payload)" by (cases d) auto
  have "k \<in> set (map wh_provider_event_id (webhook_events (snd (process_webhook g now prov j payload w))))"
    using Cons.prems by (simp only: event_ids_process_webhook) simp
  from Cons.IH[OF this] d show ?case by simp
qed

text \<open>
  Claim C2, on the WebhookProcessor modelled from the spec. The first delivery of an
  event identifier stores it. After that, whatever other deliveries \<open>ds\<close> come in
  between, a further delivery of the same identifier (at any instant, with any payload)
  is marked ignored and leaves the whole state as it was: no intent, payment, ledger
  entry or event changes, so the settlement runs at most once per identifier.
\<close>

theorem duplicate_delivery_ignored:
  "event_id \<in> set (map wh_provider_event_id
       (webhook_events (snd (process_webhook g now prov event_id payload w))))
   \<and> process_webhook g now' prov' event_id payload'
        (deliver_all g ds (snd (process_webhook g now prov event_id payload w)))
      = (Delivery_ignored, deliver_all g ds (snd (process_webhook g now prov event_id payload w)))"
proof -
  have first: "event_id \<in> set (map wh_provider_event_id
       (webhook_events (snd (process_webhook g now prov event_id payload w))))"
    by (simp only: event_ids_process_webhook) simp
  from event_ids_deliver_all[OF first, of g ds] first show ?thesis
    by (simp add: process_webhook_def)
qed

theorem duplicate_delivery_ignored_witness:
  "length (payments initiated_world) = 0
   \<and> length (payments (snd (process_webhook ex_gateway (hours 2) Mpesa ''ws_CO_1-result'' (JDict [])
        initiated_world))) = 1
   \<and> process_webhook ex_gateway (hours 3) Mpesa ''ws_CO_1-result'' (JDict [])
        (deliver_all ex_gateway []
           (snd (process_webhook ex_gateway (hours 2) Mpesa ''ws_CO_1-result'' (JDict []) initiated_world)))
      = (Delivery_ignored,
         deliver_all ex_gateway []
           (snd (process_webhook ex_gateway (hours 2) Mpesa ''ws_CO_1-result'' (JDict []) initiated_world)))"
proof -
  have a: "length (payments initiated_world) = 0" by code_simp
  have b: "length (payments (snd (process_webhook ex_gateway (hours 2) Mpesa ''ws_CO_1-result'' (JDict [])
        initiated_world))) = 1" by code_simp
  from duplicate_delivery_ignored [of "''ws_CO_1-result''" ex_gateway "hours 2" Mpesa "JDict []"
      initiated_world "hours 3" Mpesa "JDict []" "[]"] a b
  show ?thesis by blast
qed

section \<open>The dunning sweep\<close>

text \<open>
  Claim C3, on the code. The subscription's renewal failed at instant 0, the schedule is
  \<open>[0, 1, 3, 7]\<close> with seven days of grace, the provider fails every push, and the
  sweep runs every six hours for eight days. The claim says four retries, on days 0, 1, 3
  and 7. The code measures the days from the latest failed attempt, which each failed
  retry renews, so every sweep finds day 0 and retries: days 0 to 6 see four new attempts
  each (day 0 holds the first failure as well) and day 7 one, after which the
  subscription is no longer past due.
\<close>

theorem dunning_retries_every_sweep:
  "map (\<lambda>d. length (attempts_on_day 0 d 1
          (dunning_sweeps ''a1b2c3d4'' stk_down collect_down (six_hourly 8) dunning_world)))
       [0, 1, 2, 3, 4, 5, 6, 7]
     = [5, 4, 4, 4, 4, 4, 4, 1]"
  by code_simp

text \<open>
  Claim C4, on the code. The subscription has failed attempts made on day 0 and on day 1,
  and the sweep runs on day 3. Three days have passed since the first failure and 3 is a
  retry offset, so the claim asks for a new attempt and a notification. The code reads
  the latest failed attempt, finds two days, and creates nothing.
\<close>

theorem dunning_counts_from_latest_failure:
  "days_since_failure (days 3 + hours 2) (ex_attempt 10 1 Attempt_failed 0) = 3
   \<and> should_retry (get_retry_days default_schedule) 3
   \<and> latest_attempt dunning_world_two_failures (ex_subscription Sub_past_due)
        = Some (ex_attempt 11 2 Attempt_failed (days 1 + hours 1))
   \<and> process_dunning_schedule (days 3 + hours 2) dunning_world_two_failures
        = (0, dunning_world_two_failures)"
  by code_simp

section \<open>The renewal sweep\<close>

lemma renew_try_raises: "renew_try now subscription w = Inl NameError \<or> renew_try now subscription w = Inl DoesNotExist"
  by (simp add: renew_try_def and_then_def eval_Decimal_zero_def names_in_scope_def get_row_def
      split: sum.splits option.splits)

lemma renewal_loop_creates_nothing:
  "snd (renewal_loop now subs (r, w)) = w \<and> renewed (fst (renewal_loop now subs (r, w))) = renewed r"
proof (induction subs arbitrary: r)
  case Nil
  then show ?case by simp
next
  case (Cons s subs)
  from renew_try_raises[of now s w] Cons.IH show ?case by auto
qed

text \<open>On every state the sweep creates nothing and reports no renewal.\<close>

lemma renewals_create_nothing:
  "snd (process_subscription_renewals now w) = w \<and> renewed (fst (process_subscription_renewals now w)) = 0"
  using renewal_loop_creates_nothing [of now "subscriptions_due now w" "\<lparr>renewed = 0, failed = 0\<rparr>" w]
  by (simp add: process_subscription_renewals_def)

text \<open>
  Claim C5, on the code. The claim says that a due subscription with no attempt in flight
  gets a new order and a new renewal attempt. In the code the name \<open>Decimal\<close> of line
  55 is bound nowhere in \<open>subscriptions/tasks.py\<close>: the arguments of
  \<open>Order.objects.create\<close> raise \<open>NameError\<close>, the handler counts a failure, and
  nothing is created. Here on one active subscription that is due and has no attempt:
  the sweep returns \<open>renewed = 0, failed = 1\<close> and leaves the state as it was.
\<close>

theorem renewal_sweep_name_error:
  "subscriptions_due (hours 1) renewal_world = [ex_subscription Sub_active]
   \<and> \<not> list_ex (existing_attempt (ex_subscription Sub_active)) (renewal_attempts renewal_world)
   \<and> renew_try (hours 1) (ex_subscription Sub_active) renewal_world = Inl NameError
   \<and> process_subscription_renewals (hours 1) renewal_world
       = (\<lparr>renewed = 0, failed = 1\<rparr>, renewal_world)"
  by code_simp

section \<open>The expiry sweep\<close>

lemma map_id_expire_update: "map pi_id (map (expire_update t) tbl) = map pi_id tbl"
  by (induction tbl) (simp_all add: expire_update_def)

lemma cleanup_runs_Cons_fst:
  "fst (cleanup_runs (t # ts) tbl) =
     map pi_id (filter (expired_intents t) tbl) # fst (cleanup_runs ts (map (expire_update t) tbl))"
  by (simp add: cleanup_expired_intents_def Let_def split: prod.splits)

lemma cleanup_runs_Cons_snd:
  "snd (cleanup_runs (t # ts) tbl) = snd (cleanup_runs ts (map (expire_update t) tbl))"
  by (simp add: cleanup_expired_intents_def Let_def split: prod.splits)

lemma written_iff:
  assumes "distinct (map pi_id tbl)" "p \<in> set tbl"
  shows "pi_id p \<in> set (map pi_id (filter (expired_intents t) tbl)) \<longleftrightarrow> expired_intents t p"
proof
  assume "pi_id p \<in> set (map pi_id (filter (expired_intents t) tbl))"
  then obtain q where q: "q \<in> set tbl" "expired_intents t q" "pi_id q = pi_id p" by auto
  from assms q(1,3) have "q = p" by (meson distinct_map inj_onD)
  with q show "expired_intents t p" by simp
next
  assume "expired_intents t p"
  with assms show "pi_id p \<in> set (map pi_id (filter (expired_intents t) tbl))" by auto
qed

lemma times_written_Cons:
  "times_written k (r # rs) = (if k \<in> set r then 1 else 0) + times_written k rs"
  by (simp add: times_written_def)

lemma closed_never_written:
  assumes "distinct (map pi_id tbl)" "p \<in> set tbl"
    "pi_status p \<notin> set [Intent_created, Intent_requires_action]"
  shows "times_written (pi_id p) (fst (cleanup_runs ts tbl)) = 0 \<and> p \<in> set (snd (cleanup_runs ts tbl))"
  using assms
proof (induction ts arbitrary: tbl)
  case Nil
  then show ?case by (simp add: times_written_def)
next
  case (Cons t ts)
  have ne: "\<not> expired_intents t p" using Cons.prems(3) by (simp add: expired_intents_def)
  then have "expire_update t p = p" by (simp add: expire_update_def)
  then have mem: "p \<in> set (map (expire_update t) tbl)" using Cons.prems(2) by force
  have d: "distinct (map pi_id (map (expire_update t) tbl))"
    using Cons.prems(1) by (simp only: map_id_expire_update)
  from Cons.IH[OF d mem Cons.prems(3)] written_iff[OF Cons.prems(1,2), of t] ne
  show ?case
    by (simp only: cleanup_runs_Cons_fst cleanup_runs_Cons_snd times_written_Cons) simp
qed

text \<open>
  Claim C6. Take a table of intents with distinct primary keys and one of its rows, and
  run the expiry sweep at any instants \<open>ts\<close>, one run after the other. If the row is
  \<open>created\<close> or \<open>requires_action\<close> and some run comes after its \<open>expires_at\<close>,
  exactly one of the runs writes it and the table ends with the row cancelled; otherwise
  no run writes it and the table ends with the row as it was. So an intent in any other
  status is never modified, and an expired open intent is cancelled exactly once however
  many times the sweep runs.
\<close>

theorem cleanup_exactly_once:
  assumes "distinct (map pi_id tbl)" and "p \<in> set tbl"
  shows "times_written (pi_id p) (fst (cleanup_runs ts tbl)) =
           (if pi_status p \<in> set [Intent_created, Intent_requires_action]
               \<and> list_ex (\<lambda>t. pi_expires_at p < t) ts then 1 else 0)
         \<and> (if pi_status p \<in> set [Intent_created, Intent_requires_action]
               \<and> list_ex (\<lambda>t. pi_expires_at p < t) ts
             then p\<lparr>pi_status := Intent_cancelled, pi_error_message := ''Payment intent expired''\<rparr>
             else p) \<in> set (snd (cleanup_runs ts tbl))"
proof (cases "pi_status p \<in> set [Intent_created, Intent_requires_action]")
  case False
  with closed_never_written[OF assms, of ts] show ?thesis by simp
next
  case True
  from assms True show ?thesis
  proof (induction ts arbitrary: tbl)
    case Nil
    then show ?case by (simp add: times_written_def)
  next
    case (Cons t ts)
    have d: "distinct (map pi_id (map (expire_update t) tbl))"
      using Cons.prems(1) by (simp only: map_id_expire_update)
    show ?case
    proof (cases "pi_expires_at p < t")
      case late: True
      then have ex: "expired_intents t p" using Cons.prems(3) by (simp add: expired_intents_def)
      let ?q = "p\<lparr>pi_status := Intent_cancelled, pi_error_message := ''Payment intent expired''\<rparr>"
      have "expire_update t p = ?q" using ex by (simp add: expire_update_def)
      then have mem: "?q \<in> set (map (expire_update t) tbl)" using Cons.prems(2) by force
      have cl: "pi_status ?q \<notin> set [Intent_created, Intent_requires_action]" by simp
      from closed_never_written[OF d mem cl, of ts] written_iff[OF Cons.prems(1,2), of t] ex late Cons.prems(3)
      show ?thesis
        by (simp only: cleanup_runs_Cons_fst cleanup_runs_Cons_snd times_written_Cons) simp
    next
      case early: False
      then have ne: "\<not> expired_intents t p" by (simp add: expired_intents_def)
      then have "expire_update t p = p" by (simp add: expire_update_def)
      then have mem: "p \<in> set (map (expire_update t) tbl)" using Cons.prems(2) by force
      from Cons.IH[OF d mem Cons.prems(3)] written_iff[OF Cons.prems(1,2), of t] ne early Cons.prems(3)
      show ?thesis
        by (simp only: cleanup_runs_Cons_fst cleanup_runs_Cons_snd times_written_Cons) simp
    qed
  qed
qed


theorem cleanup_exactly_once_witness:
  "distinct (map pi_id [ex_intent 1 Intent_created 10, ex_intent 2 Intent_succeeded 10])
   \<and> ex_intent 1 Intent_created 10 \<in> set [ex_intent 1 Intent_created 10, ex_intent 2 Intent_succeeded 10]
   \<and> times_written 1 (fst (cleanup_runs [5, 20, 30]
         [ex_intent 1 Intent_created 10, ex_intent 2 Intent_succeeded 10])) = 1"
  using cleanup_exactly_once [of "[ex_intent 1 Intent_created 10, ex_intent 2 Intent_succeeded 10]"
      "ex_intent 1 Intent_created 10" "[5, 20, 30]"]
  by (simp add: ex_intent_def)

section \<open>The ledger\<close>

lemma side_total_append: "side_total t (xs @ ys) = side_total t xs + side_total t ys"
  by (simp add: side_total_def)

lemma side_total_attach: "side_total t (map (attach target) es) = side_total t es"
  by (induction es) (simp_all add: side_total_def attach_def split: post_target.splits)

lemma Post_effect:
  assumes "Post target entries w = Inr w'"
  shows "ledger_entries w' = ledger_entries w @ map (attach target) entries
         \<and> side_total Debit entries = side_total Credit entries"
  using assms by (auto simp: Post_def split: if_splits)

lemma entries_of_payment_Post:
  assumes "Post target entries w = Inr w'"
  shows "entries_of_payment k w' = entries_of_payment k w
           \<or> entries_of_payment k w' = entries_of_payment k w @ map (attach target) entries"
proof (cases target)
  case (For_payment j)
  show ?thesis
  proof (cases "j = k")
    case True
    have "filter (\<lambda>e. le_payment e = Some k) (map (attach (For_payment k)) entries)
            = map (attach (For_payment k)) entries"
      by (induction entries) (simp_all add: attach_def)
    with Post_effect[OF assms] For_payment True show ?thesis
      by (simp add: entries_of_payment_def)
  next
    case False
    have "filter (\<lambda>e. le_payment e = Some k) (map (attach (For_payment j)) entries) = []"
      using False by (induction entries) (simp_all add: attach_def)
    with Post_effect[OF assms] For_payment show ?thesis
      by (simp add: entries_of_payment_def)
  qed
next
  case (For_refund j)
  have "filter (\<lambda>e. le_payment e = Some k) (map (attach (For_refund j)) entries) = []"
    by (induction entries) (simp_all add: attach_def)
  with Post_effect[OF assms] For_refund show ?thesis
    by (simp add: entries_of_payment_def)
qed

lemma Post_balanced:
  assumes "Post target entries w = Inr w'" and "balanced k w"
  shows "balanced k w'"
  using entries_of_payment_Post[OF assms(1), of k] Post_effect[OF assms(1)] assms(2)
  by (auto simp: balanced_def side_total_append side_total_attach)

lemma extends_ledger_iff:
  "extends_ledger a b \<longleftrightarrow> (\<exists>ys. ledger_entries b = ledger_entries a @ ys)"
  unfolding extends_ledger_def by (metis append_eq_conv_conj)

lemma extends_ledger_refl: "extends_ledger w w"
  by (simp add: extends_ledger_def)

lemma extends_ledger_trans:
  assumes "extends_ledger a b" and "extends_ledger b c"
  shows "extends_ledger a c"
proof -
  from assms(1) obtain ys where "ledger_entries b = ledger_entries a @ ys"
    by (auto simp: extends_ledger_iff)
  moreover from assms(2) obtain zs where "ledger_entries c = ledger_entries b @ zs"
    by (auto simp: extends_ledger_iff)
  ultimately show ?thesis by (simp add: extends_ledger_iff)
qed

lemma Post_extends:
  assumes "Post target entries w = Inr w'"
  shows "extends_ledger w w'"
  using Post_effect[OF assms] by (simp add: extends_ledger_def)

text \<open>
  Claim C7, on the LedgerRecorder modelled from the spec. Whatever postings are made,
  balanced or not, if the debits and the credits of a payment were equal before, they are
  equal after: a posting is validated before it is stored. And the ledger after keeps
  every entry it had before, unchanged and in place: entries are only appended.
\<close>

theorem ledger_balanced_append_only:
  assumes "balanced k w"
  shows "balanced k (post_all reqs w) \<and> extends_ledger w (post_all reqs w)"
  using assms
proof (induction reqs arbitrary: w)
  case Nil
  then show ?case by (simp add: extends_ledger_refl)
next
  case (Cons req reqs)
  obtain target entries where req: "req = (target, entries)" by (cases req)
  show ?case
  proof (cases "Post target entries w")
    case (Inl e)
    with Cons req show ?thesis by simp
  next
    case (Inr w')
    from Cons.IH[OF Post_balanced[OF Inr Cons.prems]] Post_extends[OF Inr] Inr req
    show ?thesis by (auto intro: extends_ledger_trans)
  qed
qed

theorem ledger_balanced_append_only_witness:
  "balanced 40 empty_world
   \<and> balanced 40 (post_all
         [(For_payment 40, [ex_entry Debit Asset 500000, ex_entry Credit Revenue 500000]),
          (For_payment 40, [ex_entry Debit Asset 100])] empty_world)
   \<and> length (ledger_entries (post_all
         [(For_payment 40, [ex_entry Debit Asset 500000, ex_entry Credit Revenue 500000]),
          (For_payment 40, [ex_entry Debit Asset 100])] empty_world)) = 2"
proof -
  have h: "balanced 40 empty_world" by code_simp
  have n: "length (ledger_entries (post_all
         [(For_payment 40, [ex_entry Debit Asset 500000, ex_entry Credit Revenue 500000]),
          (For_payment 40, [ex_entry Debit Asset 100])] empty_world)) = 2" by code_simp
  from ledger_balanced_append_only [OF h, of
         "[(For_payment 40, [ex_entry Debit Asset 500000, ex_entry Credit Revenue 500000]),
          (For_payment 40, [ex_entry Debit Asset 100])]"] h n
  show ?thesis by blast
qed

section \<open>The reconciliation job\<close>

lemma reconcile_writes_queue_only:
  assumes "reconcile_daily_payments now w = Inr (r, w')"
  shows "w' = w\<lparr>queue := queue w'\<rparr>
         \<and> length (admin_alerts w') = length (admin_alerts w) + (if mismatches r = 0 then 0 else 1)
         \<and> (mismatches r = 0 \<longrightarrow> w' = w)"
  using assms
  by (auto simp: reconcile_daily_payments_def Let_def and_then_def admin_alerts_def
      split: sum.splits if_splits)

lemma reconcile_single:
  assumes "payments_of_yesterday now w = [p]"
    and "get_row ord_id (orders w) (pay_order p) = Inr order"
    and "ord_status order = Order_pending"
  shows "reconcile_daily_payments now w =
           Inr (\<lparr>total_payments = 1, mismatches = (if webhook_exists w p then 1 else 2)\<rparr>,
                w\<lparr>queue := queue w @
                   [Send_admin_alert ''Payment Reconciliation Alert''
                      (''Found '' @ string_of_nat (if webhook_exists w p then 1 else 2)
                         @ '' payment mismatches during reconciliation'')]\<rparr>)"
  using assms
  by (simp add: reconcile_daily_payments_def Let_def and_then_def numeral_2_eq_2)

text \<open>
  Claim C8, as amended. When the window of the previous day holds exactly one payment
  and the order of that payment is \<open>pending\<close>, the job reports one mismatch if a
  processed webhook event is tied to the payment and two if none is (the order that is
  not paid, and the missing event); in both cases it sends exactly one admin alert and
  writes no table (the state differs from the old one in the queue only). And whenever
  a run finds no mismatch, it sends no alert and leaves the state as it was.
\<close>

theorem reconcile_one_pending_order:
  assumes "payments_of_yesterday now w = [p]"
    and "get_row ord_id (orders w) (pay_order p) = Inr order"
    and "ord_status order = Order_pending"
  shows "(\<exists>r w'. reconcile_daily_payments now w = Inr (r, w')
           \<and> total_payments r = 1
           \<and> mismatches r = (if webhook_exists w p then 1 else 2)
           \<and> length (admin_alerts w') = length (admin_alerts w) + 1
           \<and> w' = w\<lparr>queue := queue w'\<rparr>)
         \<and> (\<forall>r2 w2'. reconcile_daily_payments now2 w2 = Inr (r2, w2') \<and> mismatches r2 = 0
               \<longrightarrow> w2' = w2)"
proof
  from reconcile_single[OF assms] show "\<exists>r w'. reconcile_daily_payments now w = Inr (r, w')
           \<and> total_payments r = 1
           \<and> mismatches r = (if webhook_exists w p then 1 else 2)
           \<and> length (admin_alerts w') = length (admin_alerts w) + 1
           \<and> w' = w\<lparr>queue := queue w'\<rparr>"
    by (simp add: admin_alerts_def)
  show "\<forall>r2 w2'. reconcile_daily_payments now2 w2 = Inr (r2, w2') \<and> mismatches r2 = 0 \<longrightarrow> w2' = w2"
    using reconcile_writes_queue_only by blast
qed

theorem reconcile_one_pending_order_witness:
  "payments_of_yesterday (days 1 + hours 2) (reconcile_world [ex_webhook_event Webhook_processed])
     = [ex_payment (hours 10)]
   \<and> get_row ord_id (orders (reconcile_world [ex_webhook_event Webhook_processed]))
         (pay_order (ex_payment (hours 10))) = Inr (ex_order Order_pending)
   \<and> ord_status (ex_order Order_pending) = Order_pending
   \<and> reconcile_daily_payments (days 1 + hours 2) (reconcile_world [ex_webhook_event Webhook_processed])
       = Inr (\<lparr>total_payments = 1, mismatches = 1\<rparr>,
              (reconcile_world [ex_webhook_event Webhook_processed])
                \<lparr>queue := [Send_admin_alert ''Payment Reconciliation Alert''
                   ''Found 1 payment mismatches during reconciliation'']\<rparr>)
   \<and> reconcile_daily_payments (days 1 + hours 2) empty_world
       = Inr (\<lparr>total_payments = 0, mismatches = 0\<rparr>, empty_world)"
proof -
  have h1: "payments_of_yesterday (days 1 + hours 2) (reconcile_world [ex_webhook_event Webhook_processed])
     = [ex_payment (hours 10)]" by code_simp
  have h2: "get_row ord_id (orders (reconcile_world [ex_webhook_event Webhook_processed]))
         (pay_order (ex_payment (hours 10))) = Inr (ex_order Order_pending)" by code_simp
  have h3: "ord_status (ex_order Order_pending) = Order_pending" by code_simp
  have r1: "reconcile_daily_payments (days 1 + hours 2) (reconcile_world [ex_webhook_event Webhook_processed])
       = Inr (\<lparr>total_payments = 1, mismatches = 1\<rparr>,
              (reconcile_world [ex_webhook_event Webhook_processed])
                \<lparr>queue := [Send_admin_alert ''Payment Reconciliation Alert''
                   ''Found 1 payment mismatches during reconciliation'']\<rparr>)" by code_simp
  have r2: "reconcile_daily_payments (days 1 + hours 2) empty_world
       = Inr (\<lparr>total_payments = 0, mismatches = 0\<rparr>, empty_world)" by code_simp
  from reconcile_one_pending_order [OF h1 h2 h3] h1 h2 h3 r1 r2 show ?thesis by blast
qed

text \<open>
  The claim as stated fails: with one payment in the window, its order pending and no
  webhook event tied to it, the job reports two mismatches, not one.
\<close>

theorem reconcile_two_mismatches:
  "payments_of_yesterday (days 1 + hours 2) (reconcile_world []) = [ex_payment (hours 10)]
   \<and> map ord_status (orders (reconcile_world [])) = [Order_pending]
   \<and> reconcile_daily_payments (days 1 + hours 2) (reconcile_world [])
       = Inr (\<lparr>total_payments = 1, mismatches = 2\<rparr>,
              (reconcile_world [])\<lparr>queue := [Send_admin_alert ''Payment Reconciliation Alert''
                 ''Found 2 payment mismatches during reconciliation'']\<rparr>)"
  by code_simp

section \<open>The phone number sent to the provider\<close>

lemma phone_formats:
  "mpesa_phone_number (''0'' @ d) = ''254'' @ d
   \<and> mpesa_phone_number (''254'' @ d) = ''254'' @ d
   \<and> mpesa_phone_number (''+254'' @ d) = ''254'' @ d
   \<and> airtel_phone_number (''0'' @ d) = ''0'' @ d
   \<and> airtel_phone_number (''254'' @ d) = ''0'' @ d
   \<and> airtel_phone_number (''+254'' @ d) = ''0'' @ d"
  by (simp add: mpesa_phone_number_def airtel_phone_number_def startswith_def)

text \<open>
  Claim C9, as amended. For a Kenyan subscriber number with national part \<open>d\<close>,
  written \<open>0d\<close>, \<open>254d\<close> or \<open>+254d\<close>, the M-Pesa adapter puts \<open>254d\<close>
  (international, without the plus sign) in both \<open>PartyA\<close> and \<open>PhoneNumber\<close> of
  its request, and the Airtel adapter puts \<open>0d\<close> (national, without the country
  code) in \<open>subscriber.msisdn\<close>. Each adapter has a format of its own.
\<close>

theorem adapters_phone_formats:
  "PhoneNumber (stk_push_request sc pw ts (''0'' @ d) a ar td cb) = ''254'' @ d
   \<and> PhoneNumber (stk_push_request sc pw ts (''254'' @ d) a ar td cb) = ''254'' @ d
   \<and> PhoneNumber (stk_push_request sc pw ts (''+254'' @ d) a ar td cb) = ''254'' @ d
   \<and> PartyA (stk_push_request sc pw ts p a ar td cb) = PhoneNumber (stk_push_request sc pw ts p a ar td cb)
   \<and> subscriber_msisdn (collect_request (''0'' @ d) a r) = ''0'' @ d
   \<and> subscriber_msisdn (collect_request (''254'' @ d) a r) = ''0'' @ d
   \<and> subscriber_msisdn (collect_request (''+254'' @ d) a r) = ''0'' @ d"
  using phone_formats [of d]
  by (simp add: stk_push_request_def collect_request_def Let_def)

theorem adapters_phone_formats_witness:
  "PhoneNumber (stk_push_request ''174379'' ''pw'' ''20240101000000'' ''0712345678'' 100000 ''ref'' ''Subscription'' ''cb'') = ''254712345678''
   \<and> subscriber_msisdn (collect_request ''+254712345678'' 100000 ''ref'') = ''0712345678''"
  using adapters_phone_formats [of "''174379''" "''pw''" "''20240101000000''" "''712345678''" 100000 "''ref''" "''Subscription''" "''cb''" "''0712345678''" "''ref''"]
  by simp

text \<open>
  The claim as stated fails: for the same input \<open>254712345678\<close> the Airtel adapter
  sends \<open>0712345678\<close>, which is not an international number, while the M-Pesa adapter
  sends \<open>254712345678\<close>; and the M-Pesa adapter sends an input without prefix,
  \<open>712345678\<close>, as it is.
\<close>

theorem phone_not_one_format:
  "subscriber_msisdn (collect_request ''254712345678'' 100000 ''ref'') = ''0712345678''
   \<and> PhoneNumber (stk_push_request ''174379'' ''pw'' ''20240101000000'' ''254712345678'' 100000 ''ref'' ''Subscription'' ''cb'') = ''254712345678''
   \<and> PhoneNumber (stk_push_request ''174379'' ''pw'' ''20240101000000'' ''712345678'' 100000 ''ref'' ''Subscription'' ''cb'') = ''712345678''"
  by (simp add: stk_push_request_def collect_request_def Let_def mpesa_phone_number_def airtel_phone_number_def startswith_def)

section \<open>Parsing a callback\<close>

lemma and_then_Inr: "and_then m f = Inr y \<longleftrightarrow> (\<exists>x. m = Inr x \<and> f x = Inr y)"
  by (cases m) (simp_all add: and_then_def)

lemma map_of_update_other: "k \<noteq> k' \<Longrightarrow> map_of (AList.update k v al) k' = map_of al k'"
  by (simp add: update_conv')

lemma mpesa_parse_items_success:
  "mpesa_parse_items dec items parsed = Inr out \<Longrightarrow> map_of out ''success'' = map_of parsed ''success''"
proof (induction items arbitrary: parsed)
  case Nil
  then show ?case by simp
next
  case (Cons item items)
  from Cons.prems obtain name val where
    step: "(if py_eq_str name ''Amount'' then
         and_then (decimal_of dec val) (\<lambda>d.
           mpesa_parse_items dec items (AList.update ''amount'' (PyDecimal d) parsed))
       else if py_eq_str name ''MpesaReceiptNumber'' then
         mpesa_parse_items dec items (AList.update ''receipt_number'' (PyJson val) parsed)
       else if py_eq_str name ''TransactionDate'' then
         mpesa_parse_items dec items (AList.update ''transaction_date'' (PyJson val) parsed)
       else if py_eq_str name ''PhoneNumber'' then
         mpesa_parse_items dec items (AList.update ''phone_number'' (PyJson val) parsed)
       else mpesa_parse_items dec items parsed) = Inr out"
    by (auto simp: and_then_Inr)
  then show ?case
    by (auto simp: and_then_Inr map_of_update_other split: if_splits dest!: Cons.IH)
qed

lemma mpesa_parse_try_success:
  "mpesa_parse_try dec x = Inr out \<Longrightarrow> \<exists>b. map_of out ''success'' = Some (PyBool b)"
  unfolding mpesa_parse_try_def
  by (auto simp: and_then_Inr Let_def split: if_splits dest!: mpesa_parse_items_success)

lemma airtel_parse_try_success:
  "airtel_parse_try dec x = Inr out \<Longrightarrow> \<exists>b. map_of out ''success'' = Some (PyBool b)"
  unfolding airtel_parse_try_def
  by (auto simp: and_then_Inr Let_def map_of_update_other split: if_splits option.splits)

text \<open>
  Claim C10. For every payload \<open>x\<close> that \<open>json.loads\<close> can produce (a dictionary
  or not, well formed or not) and every behaviour \<open>dec\<close> of the \<open>Decimal\<close>
  constructor, \<open>MPesaProvider.parse_callback\<close> and \<open>AirtelProvider.parse_callback\<close>
  return a dictionary (no exception leaves them) whose key \<open>success\<close> holds a
  boolean; and when the parsing raises an exception \<open>e\<close>, \<open>success\<close> is false
  and the key \<open>error\<close> holds the text of \<open>e\<close>.
\<close>

theorem parse_callback_never_raises:
  "(\<exists>parsed b. mpesa_parse_callback dec x = Inr parsed
        \<and> map_of parsed ''success'' = Some (PyBool b)
        \<and> (\<forall>e. mpesa_parse_try dec x = Inl e \<longrightarrow>
              b = False \<and> map_of parsed ''error'' = Some (PyStr (exn_str e))))
   \<and> (\<exists>parsed b. airtel_parse_callback dec x = Inr parsed
        \<and> map_of parsed ''success'' = Some (PyBool b)
        \<and> (\<forall>e. airtel_parse_try dec x = Inl e \<longrightarrow>
              b = False \<and> map_of parsed ''error'' = Some (PyStr (exn_str e))))"
proof
  show "\<exists>parsed b. mpesa_parse_callback dec x = Inr parsed
        \<and> map_of parsed ''success'' = Some (PyBool b)
        \<and> (\<forall>e. mpesa_parse_try dec x = Inl e \<longrightarrow>
              b = False \<and> map_of parsed ''error'' = Some (PyStr (exn_str e)))"
  proof (cases "mpesa_parse_try dec x")
    case (Inl e)
    then show ?thesis by (auto simp: mpesa_parse_callback_def parse_failure_def)
  next
    case (Inr out)
    with mpesa_parse_try_success[OF Inr] show ?thesis
      by (auto simp: mpesa_parse_callback_def)
  qed
  show "\<exists>parsed b. airtel_parse_callback dec x = Inr parsed
        \<and> map_of parsed ''success'' = Some (PyBool b)
        \<and> (\<forall>e. airtel_parse_try dec x = Inl e \<longrightarrow>
              b = False \<and> map_of parsed ''error'' = Some (PyStr (exn_str e)))"
  proof (cases "airtel_parse_try dec x")
    case (Inl e)
    then show ?thesis by (auto simp: airtel_parse_callback_def parse_failure_def)
  next
    case (Inr out)
    with airtel_parse_try_success[OF Inr] show ?thesis
      by (auto simp: airtel_parse_callback_def)
  qed
qed

theorem parse_callback_never_raises_witness:
  "mpesa_parse_try example_decimal (JStr ''not a dictionary'') = Inl AttributeError
   \<and> mpesa_parse_callback example_decimal (JStr ''not a dictionary'')
       = Inr [(''success'', PyBool False), (''error'', PyStr ''AttributeError'')]
   \<and> airtel_parse_try example_decimal (JDict [(''transaction'', JDict [(''amount'', JStr ''abc'')])]) = Inl InvalidOperation
   \<and> airtel_parse_callback example_decimal (JDict [(''transaction'', JDict [(''amount'', JStr ''abc'')])])
       = Inr [(''success'', PyBool False), (''error'', PyStr ''InvalidOperation'')]"
  using parse_callback_never_raises [of example_decimal "JStr ''not a dictionary''"]
    parse_callback_never_raises [of example_decimal "JDict [(''transaction'', JDict [(''amount'', JStr ''abc'')])]"]
  by (simp add: mpesa_parse_callback_def mpesa_parse_try_def airtel_parse_callback_def
      airtel_parse_try_def and_then_def parse_failure_def decimal_of_def example_decimal_def)

section \<open>The repository's tests of the parsers\<close>

text \<open>
  The four cases of \<open>payments/test_mpesa.py\<close> and \<open>payments/test_airtel.py\<close>, run on
  the model (an amount of 1000 is 100000 hundredths).
\<close>

lemma test_mpesa_parse_callback_success:
  "mpesa_parse_callback example_decimal
     (JDict [(''Body'', JDict [(''stkCallback'', JDict
        [(''MerchantRequestID'', JStr ''test-merchant-123''),
         (''CheckoutRequestID'', JStr ''test-checkout-456''),
         (''ResultCode'', JInt 0), (''ResultDesc'', JStr ''Success''),
         (''CallbackMetadata'', JDict [(''Item'', JList
            [JDict [(''Name'', JStr ''Amount''), (''Value'', JInt 1000)],
             JDict [(''Name'', JStr ''MpesaReceiptNumber''), (''Value'', JStr ''ABC123'')],
             JDict [(''Name'', JStr ''TransactionDate''), (''Value'', JInt 20231215100000)],
             JDict [(''Name'', JStr ''PhoneNumber''), (''Value'', JInt 254712345678)]])])])])])
   = Inr [(''result_code'', PyJson (JInt 0)),
          (''result_desc'', PyJson (JStr ''Success'')),
          (''merchant_request_id'', PyJson (JStr ''test-merchant-123'')),
          (''checkout_request_id'', PyJson (JStr ''test-checkout-456'')),
          (''success'', PyBool True), (''amount'', PyDecimal 100000),
          (''receipt_number'', PyJson (JStr ''ABC123'')),
          (''transaction_date'', PyJson (JInt 20231215100000)),
          (''phone_number'', PyJson (JInt 254712345678))]"
  by code_simp

lemma test_mpesa_parse_callback_failure:
  "mpesa_parse_callback example_decimal
     (JDict [(''Body'', JDict [(''stkCallback'', JDict
        [(''MerchantRequestID'', JStr ''test-merchant-123''),
         (''CheckoutRequestID'', JStr ''test-checkout-456''),
         (''ResultCode'', JInt 1032), (''ResultDesc'', JStr ''Request cancelled by user'')])])])
   = Inr [(''result_code'', PyJson (JInt 1032)),
          (''result_desc'', PyJson (JStr ''Request cancelled by user'')),
          (''merchant_request_id'', PyJson (JStr ''test-merchant-123'')),
          (''checkout_request_id'', PyJson (JStr ''test-checkout-456'')),
          (''success'', PyBool False)]"
  by code_simp

lemma test_airtel_parse_callback_success:
  "airtel_parse_callback example_decimal
     (JDict [(''transaction'', JDict
        [(''id'', JStr ''test-transaction-id''), (''airtel_money_id'', JStr ''AM123456789''),
         (''status'', JStr ''TS''), (''amount'', JInt 1000), (''currency'', JStr ''KES'')]),
       (''subscriber'', JDict [(''msisdn'', JStr ''0712345678''), (''country'', JStr ''KE'')])])
   = Inr [(''status'', PyJson (JStr ''TS'')),
          (''transaction_id'', PyJson (JStr ''test-transaction-id'')),
          (''airtel_money_id'', PyJson (JStr ''AM123456789'')),
          (''success'', PyBool True), (''amount'', PyDecimal 100000),
          (''currency'', PyJson (JStr ''KES'')),
          (''phone_number'', PyJson (JStr ''0712345678'')),
          (''country'', PyJson (JStr ''KE''))]"
  by code_simp

lemma test_airtel_parse_callback_failure:
  "airtel_parse_callback example_decimal
     (JDict [(''transaction'', JDict
        [(''id'', JStr ''test-transaction-id''),
         (''status'', JStr ''TF''), (''amount'', JInt 1000), (''currency'', JStr ''KES'')])])
   = Inr [(''status'', PyJson (JStr ''TF'')),
          (''transaction_id'', PyJson (JStr ''test-transaction-id'')),
          (''airtel_money_id'', PyJson JNull), (''success'', PyBool False),
          (''amount'', PyDecimal 100000),
          (''currency'', PyJson (JStr ''KES''))]"
  by code_simp

end
